theory Spec2Isabelle
  imports Complex_Main
begin

section \<open>JavaScript numbers and the random source\<close>

text \<open>
  A JavaScript number is \<open>NaN\<close>, one of the two infinities, or a finite value, which
  is a real number. The two zeros are not told apart: no comparison of the code does.
\<close>

datatype jsnum = NaN | Infinity | NegInfinity | Num real

text \<open>The comparison \<^verbatim>\<open>x > c\<close> against a finite constant: false on \<open>NaN\<close>.\<close>

fun js_gt :: "jsnum \<Rightarrow> real \<Rightarrow> bool" where
  "js_gt NaN c = False"
| "js_gt Infinity c = True"
| "js_gt NegInfinity c = False"
| "js_gt (Num x) c = (c < x)"

text \<open>
  \<^verbatim>\<open>Math.random()\<close> reads and advances an ambient generator. The generator is made
  explicit as the infinite sequence of the draws still to come; a call returns the next
  draw and the rest of the sequence.
\<close>

type_synonym rng = "nat \<Rightarrow> real"

definition Math_random :: "rng \<Rightarrow> real \<times> rng" where
  "Math_random g = (g 0, (\<lambda>n. g (Suc n)))"

text \<open>The next \<open>k\<close> draws all lie in the half-open unit interval, as \<^verbatim>\<open>Math.random\<close> promises.\<close>

definition unit_draws :: "nat \<Rightarrow> rng \<Rightarrow> bool" where
  "unit_draws k g = (\<forall>n<k. 0 \<le> g n \<and> g n < 1)"

section \<open>Rounding to binary64\<close>

text \<open>
  The code computes in IEEE 754 binary64 with rounding to nearest, ties to even. A
  positive real \<open>x\<close> with \<open>2^e \<le> x < 2^(e+1)\<close> lies between multiples of the unit
  \<open>2^(e-52)\<close>, the exponent being at least \<open>-1022\<close> (below, the numbers are subnormal
  and the unit is \<open>2^(-1074)\<close>), and is rounded to the nearest multiple, to the even one
  of two equally near. Negative numbers are rounded by their absolute value. The result
  is a real; a result of \<open>2^1024\<close> or more stands for an overflow, which
  \<open>toNumber64\<close> turns into an infinity.
\<close>

definition roundHalfEven :: "real \<Rightarrow> int" where
  "roundHalfEven q =
     (let f = \<lfloor>q\<rfloor> in
      if q - of_int f < 1/2 then f
      else if 1/2 < q - of_int f then f + 1
      else if even f then f else f + 1)"

definition exponent64 :: "real \<Rightarrow> int" where
  "exponent64 x = max \<lfloor>log 2 x\<rfloor> (- 1022)"

definition ulp64 :: "real \<Rightarrow> real" where
  "ulp64 x = 2 powi (exponent64 x - 52)"

definition round64 :: "real \<Rightarrow> real" where
  "round64 x =
     (if x = 0 then 0
      else if 0 < x then of_int (roundHalfEven (x / ulp64 x)) * ulp64 x
      else - (of_int (roundHalfEven (- x / ulp64 (- x))) * ulp64 (- x)))"

definition toNumber64 :: "real \<Rightarrow> jsnum" where
  "toNumber64 x =
     (let y = round64 x in
      if 2 ^ 1024 \<le> y then Infinity
      else if y \<le> - (2 ^ 1024) then NegInfinity
      else Num y)"

section \<open>Number.parseFloat\<close>

text \<open>
  \<^verbatim>\<open>Number.parseFloat\<close> skips leading white space and reads the longest prefix that is
  a decimal literal: an optional sign, then \<^verbatim>\<open>Infinity\<close>, or digits with an optional
  fraction and an optional exponent. Nothing readable gives \<open>NaN\<close>; the decimal value
  read is rounded to the nearest double, or to an infinity beyond the largest one.
  Strings are sequences of code units below 256.
\<close>

definition isWhiteSpace :: "char \<Rightarrow> bool" where
  "isWhiteSpace c = (c \<in> set [CHR 0x09, CHR 0x0A, CHR 0x0B, CHR 0x0C, CHR 0x0D, CHR 0x20, CHR 0xA0])"

definition isDigit :: "char \<Rightarrow> bool" where
  "isDigit c = (48 \<le> (of_char c :: nat) \<and> (of_char c :: nat) \<le> 57)"

definition digitVal :: "char \<Rightarrow> nat" where
  "digitVal c = of_char c - 48"

definition digitsVal :: "string \<Rightarrow> nat" where
  "digitsVal ds = foldl (\<lambda>acc c. 10 * acc + digitVal c) 0 ds"

fun readSign :: "string \<Rightarrow> real \<times> string" where
  "readSign [] = (1, [])"
| "readSign (c # cs) =
     (if c = CHR ''+'' then (1, cs) else if c = CHR ''-'' then (-1, cs) else (1, c # cs))"

fun startsWith :: "string \<Rightarrow> string \<Rightarrow> bool" where
  "startsWith s [] = True"
| "startsWith [] (p # ps) = False"
| "startsWith (c # cs) (p # ps) = (c = p \<and> startsWith cs ps)"

fun readExponent :: "string \<Rightarrow> int" where
  "readExponent [] = 0"
| "readExponent (c # cs) =
     (if c = CHR ''e'' \<or> c = CHR ''E'' then
        (let (sg, rest) = readSign cs; ds = takeWhile isDigit rest
         in if ds = [] then 0
            else if sg < 0 then - int (digitsVal ds) else int (digitsVal ds))
      else 0)"

definition pow10 :: "int \<Rightarrow> real" where
  "pow10 e = (if 0 \<le> e then 10 ^ nat e else 1 / 10 ^ nat (- e))"

definition parseFloat :: "string \<Rightarrow> jsnum" where
  "parseFloat s =
     (let (sg, r) = readSign (dropWhile isWhiteSpace s) in
      if startsWith r ''Infinity'' then (if sg < 0 then NegInfinity else Infinity)
      else
        let ip = takeWhile isDigit r;
            r1 = dropWhile isDigit r;
            (fp, r2) = (case r1 of
                          [] \<Rightarrow> ([], r1)
                        | c # cs \<Rightarrow> if c = CHR ''.''
                                    then (takeWhile isDigit cs, dropWhile isDigit cs)
                                    else ([], r1))
        in if ip = [] \<and> fp = [] then NaN
           else toNumber64 (sg * (real (digitsVal ip) + real (digitsVal fp) / 10 ^ length fp)
                              * pow10 (readExponent r2)))"

section \<open>The data model\<close>

text \<open>
  The objects the handler passes between its stages come first, then the two interfaces
  of \<^verbatim>\<open>types.ts\<close>. Field names are shared between records as in the source; the
  unqualified name is the one of the record declared last.
\<close>

record Features =
  amount :: jsnum
  customerRiskScore :: real
  merchantRiskScore :: real
  locationRiskScore :: real
  deviceRiskScore :: real
  ipRiskScore :: real
  timeOfDayRiskScore :: real

record MLPrediction =
  isFraudulent :: bool
  confidenceScore :: real
  processingTime :: real

record QuantumResult =
  isFraudulent :: bool
  confidence :: real
  processingTime :: real

record TransactionData =
  amount :: string
  merchantId :: string
  customerId :: string
  location :: string
  deviceId :: string
  ipAddress :: string
  timestamp :: string

record DetectionResult =
  isFraudulent :: bool
  confidence :: real
  processingTime :: real
  quantumContribution :: real

section \<open>The client-side scorer: detectFraud\<close>

text \<open>
  The three branches draw twice each, the first draw deciding the verdict and the
  second the confidence; two more draws give the processing time and the quantum
  contribution. The function has no failing path.
\<close>

definition detectFraud :: "TransactionData \<Rightarrow> rng \<Rightarrow> DetectionResult \<times> rng" where
  "detectFraud transaction g0 =
     (let amt = parseFloat (TransactionData.amount transaction);
          (isFraud, conf, g2) =
            (if js_gt amt 5000 then
               (let (r1, g1) = Math_random g0; f = (r1 > 0.7); (r2, g2) = Math_random g1
                in (f, if f then 85 + r2 * 10 else 75 + r2 * 15, g2))
             else if js_gt amt 1000 then
               (let (r1, g1) = Math_random g0; f = (r1 > 0.9); (r2, g2) = Math_random g1
                in (f, if f then 90 + r2 * 5 else 85 + r2 * 10, g2))
             else
               (let (r1, g1) = Math_random g0; f = (r1 > 0.95); (r2, g2) = Math_random g1
                in (f, if f then 95 + r2 * 5 else 90 + r2 * 8, g2)));
          (r3, g3) = Math_random g2;
          (r4, g4) = Math_random g3
      in (\<lparr>isFraudulent = isFraud, confidence = conf,
           processingTime = 100 + r3 * 150, quantumContribution = 60 + r4 * 25\<rparr>, g4))"

text \<open>
  The same function as the code computes it, in binary64: the literals 0.7, 0.9 and
  0.95 are the doubles nearest to them, and every product and every sum is rounded. The
  whole numbers of the formulas are doubles themselves. Where a property does not
  depend on rounding it is stated of \<open>detectFraud\<close>, which computes in exact reals; the
  bounds that rounding decides are stated of \<open>detectFraud64\<close>. No result overflows,
  the draws of \<^verbatim>\<open>Math.random\<close> being below one.
\<close>

definition detectFraud64 :: "TransactionData \<Rightarrow> rng \<Rightarrow> DetectionResult \<times> rng" where
  "detectFraud64 transaction g0 =
     (let amt = parseFloat (TransactionData.amount transaction);
          (isFraud, conf, g2) =
            (if js_gt amt 5000 then
               (let (r1, g1) = Math_random g0; f = (r1 > round64 0.7);
                    (r2, g2) = Math_random g1
                in (f, if f then round64 (85 + round64 (r2 * 10))
                       else round64 (75 + round64 (r2 * 15)), g2))
             else if js_gt amt 1000 then
               (let (r1, g1) = Math_random g0; f = (r1 > round64 0.9);
                    (r2, g2) = Math_random g1
                in (f, if f then round64 (90 + round64 (r2 * 5))
                       else round64 (85 + round64 (r2 * 10)), g2))
             else
               (let (r1, g1) = Math_random g0; f = (r1 > round64 0.95);
                    (r2, g2) = Math_random g1
                in (f, if f then round64 (95 + round64 (r2 * 5))
                       else round64 (90 + round64 (r2 * 8)), g2)));
          (r3, g3) = Math_random g2;
          (r4, g4) = Math_random g3
      in (\<lparr>isFraudulent = isFraud, confidence = conf,
           processingTime = round64 (100 + round64 (r3 * 150)),
           quantumContribution = round64 (60 + round64 (r4 * 25))\<rparr>, g4))"

section \<open>The request handler\<close>

subsection \<open>Run-time values\<close>

text \<open>
  The handler receives \<^verbatim>\<open>event: any\<close> and works on whatever \<^verbatim>\<open>JSON.parse\<close> returns:
  the TypeScript annotation \<^verbatim>\<open>TransactionData\<close> is erased at run time. The values
  \<^verbatim>\<open>JSON.parse\<close> can return are the JSON values; an object is the list of its members
  in source order, a later duplicate key overriding an earlier one.
\<close>

datatype json =
    JNull
  | JBool bool
  | JNum jsnum
  | JStr string
  | JArr "json list"
  | JObj "(string \<times> json) list"

datatype js_error = SyntaxError | TypeError

text \<open>
  Reading one of the seven transaction properties of a value other than \<^verbatim>\<open>null\<close>:
  \<open>None\<close> is \<^verbatim>\<open>undefined\<close>. Only objects carry such a property.
\<close>

fun field :: "json \<Rightarrow> string \<Rightarrow> json option" where
  "field (JObj kvs) k = map_of (rev kvs) k"
| "field v k = None"

text \<open>
  \<^verbatim>\<open>Number.parseFloat\<close> applied to an arbitrary value converts it to a string first,
  and the conversion can throw. An object is converted by its \<^verbatim>\<open>toString\<close> method: an
  object that has no member of that name inherits the method that returns
  \<^verbatim>\<open>[object Object]\<close>; one that has such a member hides the inherited method behind a
  JSON value, which cannot be called, and the inherited \<^verbatim>\<open>valueOf\<close> returns the object
  itself, so that the conversion throws a \<^verbatim>\<open>TypeError\<close>. An array is converted by
  joining the strings of all its elements with commas, \<^verbatim>\<open>null\<close> counting as the empty
  string, so it throws when one of its elements does.
\<close>

fun toStringThrows :: "json \<Rightarrow> bool" where
  "toStringThrows (JObj kvs) = (''toString'' \<in> fst ` set kvs)"
| "toStringThrows (JArr xs) = (\<exists>x \<in> set xs. toStringThrows x)"
| "toStringThrows JNull = False"
| "toStringThrows (JBool b) = False"
| "toStringThrows (JNum n) = False"
| "toStringThrows (JStr s) = False"

text \<open>
  What \<^verbatim>\<open>Number.parseFloat\<close> reads when the conversion returns. The strings
  \<^verbatim>\<open>undefined\<close>, \<^verbatim>\<open>null\<close>, \<^verbatim>\<open>true\<close>, \<^verbatim>\<open>false\<close> and \<^verbatim>\<open>[object Object]\<close> read as \<open>NaN\<close>;
  the string of a number reads back as that number; of the joined elements of an array
  only the first can be read, a comma ending every decimal literal.
\<close>

fun parseFloatOfJson :: "json \<Rightarrow> jsnum" where
  "parseFloatOfJson JNull = NaN"
| "parseFloatOfJson (JBool b) = NaN"
| "parseFloatOfJson (JNum n) = n"
| "parseFloatOfJson (JStr s) = parseFloat s"
| "parseFloatOfJson (JArr []) = NaN"
| "parseFloatOfJson (JArr (x # xs)) = parseFloatOfJson x"
| "parseFloatOfJson (JObj kvs) = NaN"

definition parseFloatOfValue :: "json option \<Rightarrow> jsnum" where
  "parseFloatOfValue v = (case v of None \<Rightarrow> NaN | Some j \<Rightarrow> parseFloatOfJson j)"

text \<open>The call \<^verbatim>\<open>Number.parseFloat(v)\<close> on a property that was read: it throws or returns.\<close>

definition Number_parseFloat :: "json option \<Rightarrow> js_error + jsnum" where
  "Number_parseFloat v =
     (case v of
        None \<Rightarrow> Inr NaN
      | Some j \<Rightarrow> if toStringThrows j then Inl TypeError else Inr (parseFloatOfJson j))"

text \<open>A transaction as \<^verbatim>\<open>JSON.parse\<close> returns it from a well-formed request body.\<close>

definition jsonOfTransaction :: "TransactionData \<Rightarrow> json" where
  "jsonOfTransaction t =
     JObj [(''amount'', JStr (TransactionData.amount t)), (''merchantId'', JStr (merchantId t)),
           (''customerId'', JStr (customerId t)), (''location'', JStr (location t)),
           (''deviceId'', JStr (deviceId t)), (''ipAddress'', JStr (ipAddress t)),
           (''timestamp'', JStr (timestamp t))]"

subsection \<open>Feature extraction and the two scoring stages\<close>

text \<open>
  The six risk helpers ignore their argument and scale one draw by one half. The scores
  of the two stages are computed in exact reals.
\<close>

definition calculateCustomerRiskScore :: "json option \<Rightarrow> rng \<Rightarrow> real \<times> rng" where
  "calculateCustomerRiskScore v g = (let (r, g') = Math_random g in (r * 0.5, g'))"

definition calculateMerchantRiskScore :: "json option \<Rightarrow> rng \<Rightarrow> real \<times> rng" where
  "calculateMerchantRiskScore v g = (let (r, g') = Math_random g in (r * 0.5, g'))"

definition calculateLocationRiskScore :: "json option \<Rightarrow> rng \<Rightarrow> real \<times> rng" where
  "calculateLocationRiskScore v g = (let (r, g') = Math_random g in (r * 0.5, g'))"

definition calculateDeviceRiskScore :: "json option \<Rightarrow> rng \<Rightarrow> real \<times> rng" where
  "calculateDeviceRiskScore v g = (let (r, g') = Math_random g in (r * 0.5, g'))"

definition calculateIPRiskScore :: "json option \<Rightarrow> rng \<Rightarrow> real \<times> rng" where
  "calculateIPRiskScore v g = (let (r, g') = Math_random g in (r * 0.5, g'))"

definition calculateTimeRiskScore :: "json option \<Rightarrow> rng \<Rightarrow> real \<times> rng" where
  "calculateTimeRiskScore v g = (let (r, g') = Math_random g in (r * 0.5, g'))"

text \<open>
  The feature object is built member by member, in source order. Reading
  \<^verbatim>\<open>transaction.amount\<close> of \<^verbatim>\<open>null\<close> throws a \<^verbatim>\<open>TypeError\<close>, and so does
  \<^verbatim>\<open>Number.parseFloat\<close> on an amount that cannot be converted to a string; both happen
  before any draw is made. The six other reads succeed and their values are ignored.
\<close>

definition preprocessTransaction :: "json \<Rightarrow> rng \<Rightarrow> js_error + (Features \<times> rng)" where
  "preprocessTransaction transaction g0 =
     (if transaction = JNull then Inl TypeError
      else
        case Number_parseFloat (field transaction ''amount'') of
          Inl err \<Rightarrow> Inl err
        | Inr amt \<Rightarrow>
            let (c, g1) = calculateCustomerRiskScore (field transaction ''customerId'') g0;
                (m, g2) = calculateMerchantRiskScore (field transaction ''merchantId'') g1;
                (l, g3) = calculateLocationRiskScore (field transaction ''location'') g2;
                (d, g4) = calculateDeviceRiskScore (field transaction ''deviceId'') g3;
                (i, g5) = calculateIPRiskScore (field transaction ''ipAddress'') g4;
                (t, g6) = calculateTimeRiskScore (field transaction ''timestamp'') g5
            in Inr (\<lparr>Features.amount = amt, customerRiskScore = c, merchantRiskScore = m,
                     locationRiskScore = l, deviceRiskScore = d, ipRiskScore = i,
                     timeOfDayRiskScore = t\<rparr>, g6))"

definition riskScore :: "Features \<Rightarrow> real" where
  "riskScore features =
     0.4 * (if js_gt (Features.amount features) 1000 then 0.7 else 0.3) +
     0.15 * customerRiskScore features +
     0.15 * merchantRiskScore features +
     0.1 * locationRiskScore features +
     0.1 * deviceRiskScore features +
     0.05 * ipRiskScore features +
     0.05 * timeOfDayRiskScore features"

definition runClassicalMLModel :: "Features \<Rightarrow> rng \<Rightarrow> MLPrediction \<times> rng" where
  "runClassicalMLModel features g =
     (let rs = riskScore features;
          (r, g') = Math_random g
      in (\<lparr>MLPrediction.isFraudulent = (rs > 0.6),
           confidenceScore = (if rs > 0.6 then rs else 1 - rs),
           MLPrediction.processingTime = 50 + r * 30\<rparr>, g'))"

definition calculateQuantumRiskScore :: "Features \<Rightarrow> real" where
  "calculateQuantumRiskScore features =
     (let baseScore =
            0.3 * (if js_gt (Features.amount features) 1000 then 0.8 else 0.4) +
            0.2 * customerRiskScore features +
            0.2 * merchantRiskScore features +
            0.1 * locationRiskScore features +
            0.1 * deviceRiskScore features +
            0.05 * ipRiskScore features +
            0.05 * timeOfDayRiskScore features;
          nonLinearComponent =
            sin (customerRiskScore features * merchantRiskScore features * pi) * 0.1 +
            cos (locationRiskScore features * timeOfDayRiskScore features * pi) * 0.1
      in min (max (baseScore + nonLinearComponent) 0) 1)"

text \<open>The solver waits 200 ms, which changes no value, and then scores.\<close>

definition runQuantumAnnealingSolver :: "Features \<Rightarrow> rng \<Rightarrow> QuantumResult \<times> rng" where
  "runQuantumAnnealingSolver features g =
     (let quantumRiskScore = calculateQuantumRiskScore features;
          (r, g') = Math_random g
      in (\<lparr>QuantumResult.isFraudulent = (quantumRiskScore > 0.5),
           QuantumResult.confidence =
             (if quantumRiskScore > 0.5 then quantumRiskScore * 100
              else (1 - quantumRiskScore) * 100),
           QuantumResult.processingTime = 150 + r * 100\<rparr>, g'))"

subsection \<open>The handler\<close>

text \<open>
  The event carries the request body as text. The response body is kept as the value
  handed to \<^verbatim>\<open>JSON.stringify\<close>: a detection result, or the object \<^verbatim>\<open>{ error: msg }\<close>.
\<close>

record event =
  body :: string

datatype response_body = ResultJson DetectionResult | ErrorJson string

record response =
  statusCode :: nat
  headers :: "(string \<times> string) list"
  body :: response_body

definition errorResponse :: response where
  "errorResponse =
     \<lparr>statusCode = 500, headers = [(''Content-Type'', ''application/json'')],
      response.body = ErrorJson ''Failed to process transaction''\<rparr>"

text \<open>
  \<^verbatim>\<open>JSON.parse\<close> is a parameter: it returns a JSON value or throws a \<^verbatim>\<open>SyntaxError\<close>.
  Everything runs inside \<^verbatim>\<open>try\<close>; whatever is thrown is logged and answered by
  the error response.
\<close>

definition handler :: "(string \<Rightarrow> js_error + json) \<Rightarrow> event \<Rightarrow> rng \<Rightarrow> response \<times> rng" where
  "handler JSON_parse ev g0 =
     (case JSON_parse (event.body ev) of
        Inl err \<Rightarrow> (errorResponse, g0)
      | Inr transactionData \<Rightarrow>
          (case preprocessTransaction transactionData g0 of
             Inl err \<Rightarrow> (errorResponse, g0)
           | Inr (processedFeatures, g1) \<Rightarrow>
               (let (mlPrediction, g2) = runClassicalMLModel processedFeatures g1;
                    (finalResult, g3) =
                      (if confidenceScore mlPrediction < 0.85 then
                         (let (quantumResult, g3) =
                                runQuantumAnnealingSolver processedFeatures g2
                          in (\<lparr>DetectionResult.isFraudulent = QuantumResult.isFraudulent quantumResult,
                               DetectionResult.confidence = QuantumResult.confidence quantumResult,
                               DetectionResult.processingTime = QuantumResult.processingTime quantumResult,
                               quantumContribution = 75\<rparr>, g3))
                       else
                         (\<lparr>DetectionResult.isFraudulent = MLPrediction.isFraudulent mlPrediction,
                           DetectionResult.confidence = confidenceScore mlPrediction * 100,
                           DetectionResult.processingTime = MLPrediction.processingTime mlPrediction,
                           quantumContribution = 25\<rparr>, g2))
                in (\<lparr>statusCode = 200, headers = [(''Content-Type'', ''application/json'')],
                     response.body = ResultJson finalResult\<rparr>, g3))))"

section \<open>Notions used to state the properties\<close>

text \<open>
  The dashboard's form state: the initial values of the component, with the amount
  field as the user typed it.
\<close>

definition dashboardTransaction :: "string \<Rightarrow> TransactionData" where
  "dashboardTransaction amt =
     \<lparr>amount = amt, merchantId = ''MERCH-8765'', customerId = ''CUST-1234'',
      location = ''New York, USA'', deviceId = ''DEV-5678'', ipAddress = ''192.168.1.1'',
      timestamp = ''2024-01-01T00:00:00.000Z''\<rparr>"

text \<open>
  The request body the dashboard's form state serialises to, for an amount free of
  quotes and backslashes.
\<close>

definition dashboardBody :: \<open>string \<Rightarrow> string\<close> where
  \<open>dashboardBody amt =
     ''{"amount":"'' @ amt @ ''","merchantId":"MERCH-8765","customerId":"CUST-1234","location":"New York, USA","deviceId":"DEV-5678","ipAddress":"192.168.1.1","timestamp":"2024-01-01T00:00:00.000Z"}''\<close>

text \<open>
  A finite part of \<^verbatim>\<open>JSON.parse\<close>, for examples: the listed texts with their values;
  every other text is rejected.
\<close>

definition parseTable :: "(string \<times> json) list \<Rightarrow> string \<Rightarrow> js_error + json" where
  "parseTable tab s = (case map_of tab s of Some v \<Rightarrow> Inr v | None \<Rightarrow> Inl SyntaxError)"

text \<open>
  Two bodies whose amount cannot be converted to a string: an object with a member
  \<^verbatim>\<open>toString\<close>, and an array that holds such an object behind a number.
\<close>

definition toStringBody :: \<open>string\<close> where
  \<open>toStringBody = ''{"amount":{"toString":1}}''\<close>

definition toStringArrayBody :: \<open>string\<close> where
  \<open>toStringArrayBody = ''{"amount":[5,{"toString":null}]}''\<close>

text \<open>
  The texts used in the examples below: the dashboard's body at four amounts, \<^verbatim>\<open>null\<close>,
  the empty object, the empty array and the two bodies above. The text \<^verbatim>\<open>{\<close>, as every
  text not listed, is rejected.
\<close>

definition sampleParse :: "string \<Rightarrow> js_error + json" where
  "sampleParse =
     parseTable
       (map (\<lambda>a. (dashboardBody a, jsonOfTransaction (dashboardTransaction a)))
          [''1250.00'', ''50'', ''abc'', ''0'']
        @ [(''null'', JNull), (''{}'', JObj []), (''[]'', JArr []),
           (toStringBody, JObj [(''amount'', JObj [(''toString'', JNum (Num 1))])]),
           (toStringArrayBody,
            JObj [(''amount'', JArr [JNum (Num 5), JObj [(''toString'', JNull)]])])])"


text \<open>
  The next \<open>k\<close> draws are doubles of the half-open unit interval, as \<^verbatim>\<open>Math.random\<close>
  returns them.
\<close>

definition double_draws :: "nat \<Rightarrow> rng \<Rightarrow> bool" where
  "double_draws k g = (\<forall>n<k. 0 \<le> g n \<and> g n < 1 \<and> round64 (g n) = g n)"

text \<open>The share of fraudulent verdicts of the binary64 scorer over the same grid.\<close>

definition fraudShare64 :: "TransactionData \<Rightarrow> nat \<Rightarrow> real" where
  "fraudShare64 t N =
     real (card {k \<in> {..<N}. isFraudulent (fst (detectFraud64 t (\<lambda>_. real k / real N)))})
       / real N"

text \<open>
  The six risk sub-scores of a feature object lie in the range of the risk helpers,
  one half of a draw from [0,1).
\<close>

definition subscoresInRange :: "Features \<Rightarrow> bool" where
  "subscoresInRange f \<longleftrightarrow>
     0 \<le> customerRiskScore f \<and> customerRiskScore f < 0.5 \<and>
     0 \<le> merchantRiskScore f \<and> merchantRiskScore f < 0.5 \<and>
     0 \<le> locationRiskScore f \<and> locationRiskScore f < 0.5 \<and>
     0 \<le> deviceRiskScore f \<and> deviceRiskScore f < 0.5 \<and>
     0 \<le> ipRiskScore f \<and> ipRiskScore f < 0.5 \<and>
     0 \<le> timeOfDayRiskScore f \<and> timeOfDayRiskScore f < 0.5"

text \<open>The amount of a parsed body cannot be converted to a string.\<close>

definition amountThrows :: "json \<Rightarrow> bool" where
  "amountThrows v = (case field v ''amount'' of None \<Rightarrow> False | Some a \<Rightarrow> toStringThrows a)"

text \<open>A parsed amount that is a number and not negative.\<close>

fun isNonNegative :: "jsnum \<Rightarrow> bool" where
  "isNonNegative NaN = False"
| "isNonNegative Infinity = True"
| "isNonNegative NegInfinity = False"
| "isNonNegative (Num x) = (0 \<le> x)"

section \<open>Auxiliary facts\<close>

subsection \<open>The three branches of detectFraud\<close>

lemma detectFraud_high:
  "js_gt (parseFloat (amount t)) 5000 \<Longrightarrow>
   detectFraud t g =
     (\<lparr>isFraudulent = (7/10 < g 0),
       confidence = (if 7/10 < g 0 then 85 + g 1 * 10 else 75 + g 1 * 15),
       processingTime = 100 + g 2 * 150,
       quantumContribution = 60 + g 3 * 25\<rparr>, \<lambda>n. g (n + 4))"
  by (simp add: detectFraud_def Math_random_def Let_def eval_nat_numeral)

lemma detectFraud_medium:
  "\<not> js_gt (parseFloat (amount t)) 5000 \<Longrightarrow>
   js_gt (parseFloat (amount t)) 1000 \<Longrightarrow>
   detectFraud t g =
     (\<lparr>isFraudulent = (9/10 < g 0),
       confidence = (if 9/10 < g 0 then 90 + g 1 * 5 else 85 + g 1 * 10),
       processingTime = 100 + g 2 * 150,
       quantumContribution = 60 + g 3 * 25\<rparr>, \<lambda>n. g (n + 4))"
  by (simp add: detectFraud_def Math_random_def Let_def eval_nat_numeral)

lemma detectFraud_low:
  "\<not> js_gt (parseFloat (amount t)) 1000 \<Longrightarrow>
   detectFraud t g =
     (\<lparr>isFraudulent = (95/100 < g 0),
       confidence = (if 95/100 < g 0 then 95 + g 1 * 5 else 90 + g 1 * 8),
       processingTime = 100 + g 2 * 150,
       quantumContribution = 60 + g 3 * 25\<rparr>, \<lambda>n. g (n + 4))"
  apply (cases "js_gt (parseFloat (amount t)) 5000")
   apply (cases "parseFloat (amount t)"; simp)
  apply (simp add: detectFraud_def Math_random_def Let_def eval_nat_numeral)
  done

lemma detectFraud_tail:
  "processingTime (fst (detectFraud t g)) = 100 + g 2 * 150 \<and>
   quantumContribution (fst (detectFraud t g)) = 60 + g 3 * 25 \<and>
   snd (detectFraud t g) = (\<lambda>n. g (n + 4))"
proof (cases "js_gt (parseFloat (amount t)) 5000")
  case True
  then show ?thesis by (simp add: detectFraud_high)
next
  case hi: False
  show ?thesis
  proof (cases "js_gt (parseFloat (amount t)) 1000")
    case True
    with hi show ?thesis by (simp add: detectFraud_medium)
  next
    case False
    then show ?thesis by (simp add: detectFraud_low)
  qed
qed

subsection \<open>Counting grid points above a threshold\<close>

lemma grid_count:
  fixes c :: real
  assumes "0 \<le> c" "c < 1" "0 < N"
  shows "card {k \<in> {..<N}. c < real k / real N} = N - 1 - nat \<lfloor>c * real N\<rfloor>"
proof -
  have "{k \<in> {..<N}. c < real k / real N} = {Suc (nat \<lfloor>c * real N\<rfloor>)..<N}"
  proof (rule set_eqI)
    fix k
    have "c < real k / real N \<longleftrightarrow> c * real N < real k"
      using assms by (simp add: pos_less_divide_eq)
    also have "\<dots> \<longleftrightarrow> \<lfloor>c * real N\<rfloor> < int k"
      by (simp add: floor_less_iff)
    also have "\<dots> \<longleftrightarrow> nat \<lfloor>c * real N\<rfloor> < k"
      using assms by (simp add: nat_less_iff)
    finally show "k \<in> {k \<in> {..<N}. c < real k / real N} \<longleftrightarrow> k \<in> {Suc (nat \<lfloor>c * real N\<rfloor>)..<N}"
      by auto
  qed
  then show ?thesis by simp
qed

lemma grid_share:
  fixes c :: real
  assumes "0 \<le> c" "c < 1" "0 < N"
  shows "\<bar>real (card {k \<in> {..<N}. c < real k / real N}) / real N - (1 - c)\<bar> \<le> 1 / real N"
proof -
  let ?f = "nat \<lfloor>c * real N\<rfloor>"
  have f1: "real ?f \<le> c * real N" using assms by simp
  have f2: "c * real N < real ?f + 1" using assms by linarith
  have f3: "?f < N" using assms f1
    by (smt (verit, best) mult_less_cancel_right2 of_nat_less_iff of_nat_0_less_iff)
  have "real (N - 1 - ?f) = real N - 1 - real ?f" using f3 by (simp add: of_nat_diff)
  then have eq: "real (card {k \<in> {..<N}. c < real k / real N}) = real N - 1 - real ?f"
    using grid_count[OF assms] by simp
  have Npos: "0 < real N" using assms by simp
  have "\<bar>(real N - 1 - real ?f) - (1 - c) * real N\<bar> \<le> 1"
    using f1 f2 by (simp add: algebra_simps abs_le_iff)
  then have "\<bar>((real N - 1 - real ?f) - (1 - c) * real N) / real N\<bar> \<le> 1 / real N"
    using Npos by (simp add: divide_le_cancel abs_divide divide_right_mono)
  moreover have "((real N - 1 - real ?f) - (1 - c) * real N) / real N
        = (real N - 1 - real ?f) / real N - (1 - c)"
    using Npos by (simp add: field_simps)
  ultimately show ?thesis using eq by simp
qed




subsection \<open>Rounding to binary64\<close>

lemma roundHalfEven_le:
  assumes "q < of_int k + 1/2"
  shows "roundHalfEven q \<le> k"
proof -
  have f: "\<lfloor>q\<rfloor> \<le> k" using assms by (simp add: floor_le_iff) 
  show ?thesis
  proof (cases "\<lfloor>q\<rfloor> = k")
    case True
    then have "q - of_int \<lfloor>q\<rfloor> < 1/2" using assms by simp
    then show ?thesis using True by (simp add: roundHalfEven_def Let_def)
  next
    case False
    then have "\<lfloor>q\<rfloor> + 1 \<le> k" using f by simp
    then show ?thesis by (simp add: roundHalfEven_def Let_def)
  qed
qed

lemma roundHalfEven_ge:
  assumes "of_int k - 1/2 < q"
  shows "k \<le> roundHalfEven q"
proof -
  have f: "k - 1 \<le> \<lfloor>q\<rfloor>" using assms by (simp add: le_floor_iff)
  show ?thesis
  proof (cases "\<lfloor>q\<rfloor> = k - 1")
    case True
    then have "1/2 < q - of_int \<lfloor>q\<rfloor>" using assms by simp
    then show ?thesis using True by (simp add: roundHalfEven_def Let_def)
  next
    case False
    then have "k \<le> \<lfloor>q\<rfloor>" using f by simp
    then show ?thesis by (simp add: roundHalfEven_def Let_def)
  qed
qed

lemma roundHalfEven_int: "roundHalfEven (of_int k) = k"
  by (simp add: roundHalfEven_def)

lemma ulp64_pos: "0 < ulp64 x"
  by (simp add: ulp64_def)

lemma exponent64_upper:
  assumes "0 < x" "x < 2 ^ n"
  shows "exponent64 x \<le> int n - 1"
proof -
  have "log 2 x < real n"
    using assms by (simp add: log_less_iff powr_realpow)
  then have "\<lfloor>log 2 x\<rfloor> < int n" by (simp add: floor_less_iff)
  then show ?thesis by (simp add: exponent64_def)
qed

text \<open>
  A dyadic number \<open>k / 2^m\<close> is a whole number of units of \<open>x\<close> when \<open>x < 2^n\<close> and
  \<open>m + n \<le> 53\<close>.
\<close>

lemma dyadic_ulps:
  assumes "0 < x" "x < 2 ^ n" "m + n \<le> 53"
  shows "\<exists>j. real_of_int k / 2 ^ m = of_int j * ulp64 x"
proof -
  define d where "d = 52 - exponent64 x - int m"
  have d0: "0 \<le> d"
    using exponent64_upper[OF assms(1,2)] assms(3) by (simp add: d_def)
  have "(2::real) powi (exponent64 x - 52) * 2 powi d = 2 powi (- int m)"
    by (simp add: d_def power_int_add[symmetric])
  moreover have "(2::real) powi d = of_int (2 ^ nat d)"
    using d0 by (simp add: power_int_def)
  moreover have "(2::real) powi (- int m) = 1 / 2 ^ m"
    by (simp add: power_int_minus field_simps)
  ultimately have "of_int (k * 2 ^ nat d) * ulp64 x = real_of_int k / 2 ^ m"
    by (simp add: ulp64_def mult.assoc mult.commute mult.left_commute)
  then show ?thesis by metis
qed

lemma round64_pos: "0 < x \<Longrightarrow> round64 x = of_int (roundHalfEven (x / ulp64 x)) * ulp64 x"
  by (simp add: round64_def)

lemma round64_le_dyadic:
  assumes "0 < x" "x \<le> real_of_int k / 2 ^ m" "x < 2 ^ n" "m + n \<le> 53"
  shows "round64 x \<le> real_of_int k / 2 ^ m"
proof -
  obtain j where j: "real_of_int k / 2 ^ m = of_int j * ulp64 x"
    using dyadic_ulps[OF assms(1,3,4)] by blast
  have "x / ulp64 x \<le> of_int j"
    using assms(2) ulp64_pos[of x] unfolding j by (simp add: pos_divide_le_eq)
  then have "roundHalfEven (x / ulp64 x) \<le> j"
    by (intro roundHalfEven_le) simp
  then have "of_int (roundHalfEven (x / ulp64 x)) * ulp64 x \<le> of_int j * ulp64 x"
    using ulp64_pos[of x] by (simp add: mult_right_mono)
  then show ?thesis by (simp add: round64_pos[OF assms(1)] j)
qed

lemma round64_ge_dyadic:
  assumes "0 < x" "real_of_int k / 2 ^ m \<le> x" "x < 2 ^ n" "m + n \<le> 53"
  shows "real_of_int k / 2 ^ m \<le> round64 x"
proof -
  obtain j where j: "real_of_int k / 2 ^ m = of_int j * ulp64 x"
    using dyadic_ulps[OF assms(1,3,4)] by blast
  have "of_int j \<le> x / ulp64 x"
    using assms(2) ulp64_pos[of x] unfolding j by (simp add: pos_le_divide_eq)
  then have "j \<le> roundHalfEven (x / ulp64 x)"
    by (intro roundHalfEven_ge) simp
  then have "of_int j * ulp64 x \<le> of_int (roundHalfEven (x / ulp64 x)) * ulp64 x"
    using ulp64_pos[of x] by (simp add: mult_right_mono)
  then show ?thesis by (simp add: round64_pos[OF assms(1)] j)
qed

lemma round64_dyadic:
  assumes "0 < k" "real_of_int k / 2 ^ m < 2 ^ n" "m + n \<le> 53"
  shows "round64 (real_of_int k / 2 ^ m) = real_of_int k / 2 ^ m"
proof -
  have p: "0 < real_of_int k / 2 ^ m" using assms(1) by simp
  show ?thesis
    using round64_le_dyadic[OF p order_refl assms(2,3)]
      round64_ge_dyadic[OF p order_refl assms(2,3)] by simp
qed


lemma exponent64_binade:
  assumes "2 powi e \<le> x" "x < 2 powi (e + 1)" "- 1022 \<le> e"
  shows "exponent64 x = e"
proof -
  have x: "0 < x"
  proof -
    have "(0::real) < 2 powi e" by simp
    with assms(1) show ?thesis by linarith
  qed
  have p1: "(2::real) powr (of_int e) = 2 powi e"
    by (rule powr_real_of_int') simp_all
  have p2: "(2::real) powr (of_int e + 1) = 2 powi (e + 1)"
  proof -
    have "(2::real) powr (of_int (e + 1)) = 2 powi (e + 1)"
      by (rule powr_real_of_int') simp_all
    then show ?thesis by (simp only: of_int_add of_int_1)
  qed
  have "2 powr (of_int e) \<le> x \<and> x < 2 powr (of_int e + 1)"
    using assms(1,2) by (simp only: p1 p2)
  then have "\<lfloor>log 2 x\<rfloor> = e"
    using floor_log_eq_powr_iff[of x 2 e] x by simp
  then show ?thesis using assms(3) by (simp add: exponent64_def)
qed

lemma round64_binade:
  assumes "2 powi e \<le> x" "x < 2 powi (e + 1)" "- 1022 \<le> e"
  shows "round64 x = of_int (roundHalfEven (x / 2 powi (e - 52))) * 2 powi (e - 52)"
proof -
  have "(0::real) < 2 powi e" by simp
  with assms(1) have x: "0 < x" by linarith
  show ?thesis
    by (simp add: round64_pos[OF x] ulp64_def exponent64_binade[OF assms])
qed

lemma roundHalfEven_down: "of_int f \<le> q \<Longrightarrow> q < of_int f + 1/2 \<Longrightarrow> roundHalfEven q = f"
proof -
  assume a: "of_int f \<le> q" "q < of_int f + 1/2"
  then have "\<lfloor>q\<rfloor> = f" by (intro floor_unique) simp_all
  then show ?thesis using a by (simp add: roundHalfEven_def Let_def)
qed

lemma roundHalfEven_up: "of_int f + 1/2 < q \<Longrightarrow> q < of_int f + 1 \<Longrightarrow> roundHalfEven q = f + 1"
proof -
  assume a: "of_int f + 1/2 < q" "q < of_int f + 1"
  then have "\<lfloor>q\<rfloor> = f" by (intro floor_unique) simp_all
  then show ?thesis using a by (simp add: roundHalfEven_def Let_def)
qed

lemma roundHalfEven_tie: "q = of_int f + 1/2 \<Longrightarrow> roundHalfEven q = (if even f then f else f + 1)"
proof -
  assume a: "q = of_int f + 1/2"
  then have "\<lfloor>q\<rfloor> = f" by (intro floor_unique) simp_all
  then show ?thesis using a by (simp add: roundHalfEven_def Let_def)
qed

lemma round64_nonneg: "0 \<le> x \<Longrightarrow> 0 \<le> round64 x"
proof (cases "x = 0")
  case True
  then show ?thesis by (simp add: round64_def)
next
  case False
  assume "0 \<le> x"
  with False have x: "0 < x" by simp
  have "0 < x / ulp64 x"
    using x ulp64_pos[of x] by simp
  then have "0 \<le> roundHalfEven (x / ulp64 x)"
    by (intro roundHalfEven_ge) simp
  then show ?thesis using ulp64_pos[of x] by (simp add: round64_pos[OF x])
qed

text \<open>Bounds that hold for zero as well.\<close>

lemma round64_upper:
  assumes "0 \<le> x" "x \<le> real_of_int k / 2 ^ m" "real_of_int k / 2 ^ m < 2 ^ n" "m + n \<le> 53"
  shows "round64 x \<le> real_of_int k / 2 ^ m"
proof (cases "x = 0")
  case True
  then show ?thesis using assms(2) by (simp add: round64_def)
next
  case False
  with assms(1) have x: "0 < x" by simp
  have xn: "x < 2 ^ n" using assms(2,3) by linarith
  show ?thesis by (rule round64_le_dyadic[OF x assms(2) xn assms(4)])
qed

lemma round64_lower:
  assumes "0 < k" "real_of_int k / 2 ^ m \<le> x" "x < 2 ^ n" "m + n \<le> 53"
  shows "real_of_int k / 2 ^ m \<le> round64 x"
proof -
  have "0 < real_of_int k / 2 ^ m" using assms(1) by simp
  with assms(2) have x: "0 < x" by linarith
  show ?thesis by (rule round64_ge_dyadic[OF x assms(2,3,4)])
qed

text \<open>The largest double below one.\<close>

lemma double_below_one:
  assumes "0 \<le> r" "r < 1" "round64 r = r"
  shows "r \<le> 1 - 1 / 2 ^ 53"
proof (cases "r < 1/2")
  case True
  then show ?thesis by simp
next
  case False
  have h: "(2::real) powi (- 1) = 1 / 2" by (simp add: power_int_minus)
  have b: "2 powi (- 1) \<le> r" "r < 2 powi (- 1 + 1)"
    using False assms(2) by (simp_all add: h)
  define n where "n = roundHalfEven (r / 2 powi (- 1 - 52))"
  have u: "(2::real) powi (- 1 - 52) = 1 / 2 ^ 53"
    by (simp add: power_int_minus field_simps)
  have "round64 r = of_int n * 2 powi (- 1 - 52)"
    unfolding n_def by (rule round64_binade[OF b]) simp
  then have r: "r = real_of_int n / 2 ^ 53"
    using assms(3) by (simp only: u) simp
  have "real_of_int n / 2 ^ 53 < 1"
    using assms(2) r by simp
  then have "real_of_int n < 2 ^ 53"
    by (simp add: pos_divide_less_eq)
  then have "n < 2 ^ 53" by simp
  then have "n \<le> 2 ^ 53 - 1" by simp
  then have "real_of_int n \<le> 2 ^ 53 - 1" by simp
  then have "real_of_int n / 2 ^ 53 \<le> (2 ^ 53 - 1) / 2 ^ 53"
    by (simp add: divide_right_mono)
  then show ?thesis unfolding r[symmetric] by simp
qed


lemma round64_minus: "round64 (- x) = - round64 x"
  by (simp add: round64_def)

lemma toNumber64_whole:
  assumes "0 < k" "k < 2 ^ 53"
  shows "toNumber64 (real_of_int k) = Num (real_of_int k)"
    and "toNumber64 (- real_of_int k) = Num (- real_of_int k)"
proof -
  have "real_of_int k < real_of_int (2 ^ 53)" using assms(2) by (simp only: of_int_less_iff)
  then have b: "real_of_int k < 2 ^ 53" by simp
  have c: "(2::real) ^ 53 < 2 ^ 1024" by (rule power_strict_increasing) simp_all
  have "real_of_int k / 2 ^ 0 < 2 ^ 53" using b by simp
  from round64_dyadic[OF assms(1) this] have r: "round64 (real_of_int k) = real_of_int k"
    by simp
  have p: "0 < real_of_int k" using assms(1) by simp
  show "toNumber64 (real_of_int k) = Num (real_of_int k)"
    using b c p by (simp add: toNumber64_def r Let_def)
  show "toNumber64 (- real_of_int k) = Num (- real_of_int k)"
    using b c p by (simp add: toNumber64_def round64_minus r Let_def)
qed

lemma toNumber64_zero: "toNumber64 0 = Num 0"
  by (simp add: toNumber64_def round64_def)

subsection \<open>Sample amounts\<close>

lemmas parseFloat_eval =
  parseFloat_def isWhiteSpace_def isDigit_def digitsVal_def digitVal_def pow10_def


lemma parseFloat_1250: "parseFloat ''1250.00'' = Num 1250"
  using toNumber64_whole(1)[of 1250] by (simp add: parseFloat_eval)

lemma parseFloat_50: "parseFloat ''50'' = Num 50"
  using toNumber64_whole(1)[of 50] by (simp add: parseFloat_eval)

lemma parseFloat_abc: "parseFloat ''abc'' = NaN"
  by (simp add: parseFloat_eval)

lemma parseFloat_0: "parseFloat ''0'' = Num 0"
  by (simp add: parseFloat_eval toNumber64_zero)

lemma parseFloat_minus5: "parseFloat ''-5'' = Num (- 5)"
  using toNumber64_whole(2)[of 5] by (simp add: parseFloat_eval)

lemma unit_draws_const: "0 \<le> c \<Longrightarrow> c < 1 \<Longrightarrow> unit_draws k (\<lambda>_. c)"
  by (simp add: unit_draws_def)

lemma dashboard_amount: "amount (dashboardTransaction s) = s"
  by (simp add: dashboardTransaction_def)

subsection \<open>The binary64 scorer\<close>

lemma detectFraud64_low:
  "\<not> js_gt (parseFloat (amount t)) 1000 \<Longrightarrow>
   detectFraud64 t g =
     (\<lparr>isFraudulent = (round64 (95/100) < g 0),
       confidence = (if round64 (95/100) < g 0 then round64 (95 + round64 (g 1 * 5))
                     else round64 (90 + round64 (g 1 * 8))),
       processingTime = round64 (100 + round64 (g 2 * 150)),
       quantumContribution = round64 (60 + round64 (g 3 * 25))\<rparr>, \<lambda>n. g (n + 4))"
  apply (cases "js_gt (parseFloat (amount t)) 5000")
   apply (cases "parseFloat (amount t)"; simp)
  apply (simp add: detectFraud64_def Math_random_def Let_def eval_nat_numeral)
  done

lemma detectFraud64_tail:
  "processingTime (fst (detectFraud64 t g)) = round64 (100 + round64 (g 2 * 150)) \<and>
   quantumContribution (fst (detectFraud64 t g)) = round64 (60 + round64 (g 3 * 25)) \<and>
   snd (detectFraud64 t g) = (\<lambda>n. g (n + 4))"
  by (simp add: detectFraud64_def Math_random_def Let_def eval_nat_numeral)

text \<open>Sums of a whole number and a rounded product of a draw, between whole bounds.\<close>

lemma scaled_draw_bounds:
  assumes "0 \<le> r" "r < 1" "0 < a" "0 < b" "a + b < 2 ^ 8"
  shows "real_of_int a \<le> round64 (of_int a + round64 (r * of_int b)) \<and>
         round64 (of_int a + round64 (r * of_int b)) \<le> of_int (a + b)"
proof -
  have i: "b < 256" "a + b < 256" "a < 256"
    using assms(3,4,5) by simp_all
  have "real_of_int b < real_of_int 256" "real_of_int (a + b) < real_of_int 256"
      "real_of_int a < real_of_int 256"
    using i by (simp_all only: of_int_less_iff)
  then have b8: "real_of_int b < 2 ^ 8" "real_of_int (a + b) < 2 ^ 8" "real_of_int a < 2 ^ 8"
    by simp_all
  have x0: "0 \<le> r * of_int b" using assms(1,4) by simp
  have x1: "r * of_int b \<le> real_of_int b / 2 ^ 0"
    using assms(1,2,4) by (simp add: mult_left_le_one_le)
  have p0: "0 \<le> round64 (r * of_int b)" by (rule round64_nonneg[OF x0])
  have m: "0 + 8 \<le> (53::nat)" by simp
  have c1: "real_of_int b / 2 ^ 0 < 2 ^ 8" "real_of_int (a + b) / 2 ^ 0 < 2 ^ 8"
    using b8 by simp_all
  have p1: "round64 (r * of_int b) \<le> real_of_int b / 2 ^ 0"
    by (rule round64_upper[OF x0 x1 c1(1) m])
  define y where "y = of_int a + round64 (r * of_int b)"
  have y0: "real_of_int a / 2 ^ 0 \<le> y" using p0 by (simp add: y_def)
  have y1: "y \<le> real_of_int (a + b) / 2 ^ 0" using p1 by (simp add: y_def)
  have yn: "y < 2 ^ 8" using y1 b8 by simp
  have ypos: "0 \<le> y" using y0 assms(3) by simp
  have "real_of_int a / 2 ^ 0 \<le> round64 y"
    by (rule round64_lower[OF assms(3) y0 yn m])
  moreover have "round64 y \<le> real_of_int (a + b) / 2 ^ 0"
    by (rule round64_upper[OF ypos y1 c1(2) m])
  ultimately show ?thesis by (simp add: y_def)
qed


lemma last_draw: "round64 (1 - 1 / 2 ^ 52) = 1 - 1 / 2 ^ 52"
proof -
  have e: "(1 - 1 / 2 ^ 52 :: real) = real_of_int (2 ^ 52 - 1) / 2 ^ 52"
    by simp
  have "round64 (real_of_int (2 ^ 52 - 1) / 2 ^ 52) = real_of_int (2 ^ 52 - 1) / 2 ^ 52"
    by (rule round64_dyadic[where n = 0]) simp_all
  then show ?thesis by (simp only: e)
qed

lemma half_draw: "round64 (1 / 2) = 1 / 2"
  using round64_dyadic[of 1 1 0] by simp

lemma round64_whole: "0 < k \<Longrightarrow> k < 2 ^ 53 \<Longrightarrow> round64 (real_of_int k) = real_of_int k"
proof -
  assume k: "0 < k" "k < 2 ^ 53"
  have "real_of_int k < real_of_int (2 ^ 53)" using k(2) by (simp only: of_int_less_iff)
  then have "real_of_int k / 2 ^ 0 < 2 ^ 53" by simp
  from round64_dyadic[OF k(1) this] show ?thesis by simp
qed

lemma round64_halves: "0 < k \<Longrightarrow> k < 2 ^ 52 \<Longrightarrow> round64 (real_of_int k / 2) = real_of_int k / 2"
proof -
  assume k: "0 < k" "k < 2 ^ 52"
  have "real_of_int k < real_of_int (2 ^ 52)" using k(2) by (simp only: of_int_less_iff)
  then have "real_of_int k / 2 ^ 1 < 2 ^ 52" by simp
  from round64_dyadic[OF k(1) this] show ?thesis by simp
qed

text \<open>The two roundings of the quantum contribution at the last draw.\<close>

lemma product_25_last: "round64 ((1 - 1 / 2 ^ 52) * 25) = 25 - 1 / 2 ^ 47"
proof -
  have b: "2 powi 4 \<le> ((1 - 1 / 2 ^ 52) * 25 :: real)" "((1 - 1 / 2 ^ 52) * 25 :: real) < 2 powi (4 + 1)"
    by simp_all
  have c: "- 1022 \<le> (4 :: int)" by simp
  have q: "roundHalfEven ((1 - 1 / 2 ^ 52) * 25 / 2 powi (4 - 52)) =
      25 * 2 ^ 48 - 2"
    by (rule roundHalfEven_down) simp_all
  have "round64 ((1 - 1 / 2 ^ 52) * 25) =
      of_int (roundHalfEven ((1 - 1 / 2 ^ 52) * 25 / 2 powi (4 - 52))) * 2 powi (4 - 52)"
    by (rule round64_binade[OF b c])
  also have "\<dots> = of_int (25 * 2 ^ 48 - 2) * 2 powi (4 - 52)"
    by (simp only: q)
  finally show ?thesis
    by simp
qed

lemma sum_85_last: "round64 (60 + (25 - 1 / 2 ^ 47)) = 85"
proof -
  have b: "2 powi 6 \<le> (60 + (25 - 1 / 2 ^ 47) :: real)" "(60 + (25 - 1 / 2 ^ 47) :: real) < 2 powi (6 + 1)"
    by simp_all
  have c: "- 1022 \<le> (6 :: int)" by simp
  have q: "roundHalfEven ((60 + (25 - 1 / 2 ^ 47)) / 2 powi (6 - 52)) =
      (if even (85 * 2 ^ 46 - 1 :: int) then 85 * 2 ^ 46 - 1 else 85 * 2 ^ 46 - 1 + 1)"
    by (rule roundHalfEven_tie) simp
  have "round64 ((60 + (25 - 1 / 2 ^ 47))) =
      of_int (roundHalfEven ((60 + (25 - 1 / 2 ^ 47)) / 2 powi (6 - 52))) * 2 powi (6 - 52)"
    by (rule round64_binade[OF b c])
  also have "\<dots> = of_int ((if even (85 * 2 ^ 46 - 1 :: int) then 85 * 2 ^ 46 - 1 else 85 * 2 ^ 46 - 1 + 1)) * 2 powi (6 - 52)"
    by (simp only: q)
  finally show ?thesis
    by simp
qed

text \<open>The two roundings of the confidence at the last draw.\<close>

lemma product_5_last: "round64 ((1 - 1 / 2 ^ 52) * 5) = 5 - 1 / 2 ^ 50"
proof -
  have b: "2 powi 2 \<le> ((1 - 1 / 2 ^ 52) * 5 :: real)" "((1 - 1 / 2 ^ 52) * 5 :: real) < 2 powi (2 + 1)"
    by simp_all
  have c: "- 1022 \<le> (2 :: int)" by simp
  have q: "roundHalfEven ((1 - 1 / 2 ^ 52) * 5 / 2 powi (2 - 52)) =
      (5 * 2 ^ 50 - 2) + 1"
    by (rule roundHalfEven_up) simp_all
  have "round64 ((1 - 1 / 2 ^ 52) * 5) =
      of_int (roundHalfEven ((1 - 1 / 2 ^ 52) * 5 / 2 powi (2 - 52))) * 2 powi (2 - 52)"
    by (rule round64_binade[OF b c])
  also have "\<dots> = of_int ((5 * 2 ^ 50 - 2) + 1) * 2 powi (2 - 52)"
    by (simp only: q)
  finally show ?thesis
    by simp
qed

lemma sum_100_last: "round64 (95 + (5 - 1 / 2 ^ 50)) = 100"
proof -
  have b: "2 powi 6 \<le> (95 + (5 - 1 / 2 ^ 50) :: real)" "(95 + (5 - 1 / 2 ^ 50) :: real) < 2 powi (6 + 1)"
    by simp_all
  have c: "- 1022 \<le> (6 :: int)" by simp
  have q: "roundHalfEven ((95 + (5 - 1 / 2 ^ 50)) / 2 powi (6 - 52)) =
      (100 * 2 ^ 46 - 1) + 1"
    by (rule roundHalfEven_up) simp_all
  have "round64 ((95 + (5 - 1 / 2 ^ 50))) =
      of_int (roundHalfEven ((95 + (5 - 1 / 2 ^ 50)) / 2 powi (6 - 52))) * 2 powi (6 - 52)"
    by (rule round64_binade[OF b c])
  also have "\<dots> = of_int ((100 * 2 ^ 46 - 1) + 1) * 2 powi (6 - 52)"
    by (simp only: q)
  finally show ?thesis
    by simp
qed

lemma threshold_95: "round64 (95 / 100) = 8556839292003942 / 2 ^ 53"
proof -
  have b: "2 powi (- 1) \<le> (95 / 100 :: real)" "(95 / 100 :: real) < 2 powi (- 1 + 1)"
    by (simp_all add: power_int_minus)
  have c: "- 1022 \<le> (- 1 :: int)" by simp
  have q: "roundHalfEven (95 / 100 / 2 powi (- 1 - 52)) =
      8556839292003942"
    by (rule roundHalfEven_down) (simp_all add: power_int_minus)
  have "round64 (95 / 100) =
      of_int (roundHalfEven (95 / 100 / 2 powi (- 1 - 52))) * 2 powi (- 1 - 52)"
    by (rule round64_binade[OF b c])
  also have "\<dots> = of_int (8556839292003942) * 2 powi (- 1 - 52)"
    by (simp only: q)
  finally show ?thesis
    by (simp add: power_int_minus)
qed


lemma product_150_below:
  assumes "0 \<le> r" "r \<le> 1 - 1 / 2 ^ 53"
  shows "round64 (r * 150) \<le> 150 - 1 / 2 ^ 45"
proof (cases "r * 150 < 128")
  case True
  have x0: "0 \<le> r * 150" using assms(1) by simp
  have "round64 (r * 150) \<le> real_of_int 128 / 2 ^ 0"
    by (rule round64_upper[where n = 8, OF x0]) (use True in simp_all)
  then show ?thesis by simp
next
  case False
  have b: "2 powi 7 \<le> r * 150" "r * 150 < 2 powi (7 + 1)"
    using False assms(2) by simp_all
  have c: "- 1022 \<le> (7 :: int)" by simp
  have u: "(2::real) powi (7 - 52) = 1 / 2 ^ 45"
    by (simp add: power_int_minus field_simps)
  have "r * 150 * 2 ^ 45 \<le> (1 - 1 / 2 ^ 53) * 150 * 2 ^ 45"
    using assms(2) by simp
  also have "\<dots> < real_of_int (150 * 2 ^ 45 - 1) + 1 / 2"
    by simp
  finally have "r * 150 / 2 powi (7 - 52) < real_of_int (150 * 2 ^ 45 - 1) + 1 / 2"
    by (simp only: u) simp
  then have "roundHalfEven (r * 150 / 2 powi (7 - 52)) \<le> 150 * 2 ^ 45 - 1"
    by (rule roundHalfEven_le)
  then have "real_of_int (roundHalfEven (r * 150 / 2 powi (7 - 52))) \<le> real_of_int (150 * 2 ^ 45 - 1)"
    by (simp only: of_int_le_iff)
  then have "real_of_int (roundHalfEven (r * 150 / 2 powi (7 - 52))) * 2 powi (7 - 52)
      \<le> real_of_int (150 * 2 ^ 45 - 1) * 2 powi (7 - 52)"
    by (rule mult_right_mono) simp
  also have "\<dots> = 150 - 1 / 2 ^ 45"
    by (simp only: u) simp
  finally show ?thesis
    by (simp only: round64_binade[OF b c])
qed

lemma processingTime_below_250:
  assumes "0 \<le> r" "r < 1" "round64 r = r"
  shows "round64 (100 + round64 (r * 150)) < 250"
proof -
  have r1: "r \<le> 1 - 1 / 2 ^ 53" by (rule double_below_one[OF assms])
  have x: "round64 (r * 150) \<le> 150 - 1 / 2 ^ 45"
    by (rule product_150_below[OF assms(1) r1])
  have x0: "0 \<le> round64 (r * 150)"
    using assms(1) by (intro round64_nonneg) simp
  define y where "y = 100 + round64 (r * 150)"
  have y0: "0 \<le> y" using x0 by (simp add: y_def)
  have y1: "y \<le> real_of_int (250 * 2 ^ 45 - 1) / 2 ^ 45"
    using x by (simp add: y_def field_simps)
  have "round64 y \<le> real_of_int (250 * 2 ^ 45 - 1) / 2 ^ 45"
    by (rule round64_upper[where n = 8, OF y0 y1]) simp_all
  also have "\<dots> < 250" by simp
  finally show ?thesis by (simp add: y_def)
qed

lemma fraudShare64_low:
  assumes c: "\<not> js_gt (parseFloat (amount t)) 1000" and N: "0 < N"
  shows "\<bar>fraudShare64 t N - 5/100\<bar> \<le> 1 / real N + 1 / 2 ^ 53"
proof -
  have t0: "(0::real) \<le> 8556839292003942 / 2 ^ 53" "(8556839292003942 / 2 ^ 53 :: real) < 1"
    by simp_all
  have s: "fraudShare64 t N =
      real (card {k \<in> {..<N}. 8556839292003942 / 2 ^ 53 < real k / real N}) / real N"
    by (simp only: fraudShare64_def detectFraud64_low[OF c] threshold_95 fst_conv
        DetectionResult.simps)
  have "\<bar>fraudShare64 t N - (1 - 8556839292003942 / 2 ^ 53)\<bar> \<le> 1 / real N"
    unfolding s by (rule grid_share[OF t0 N])
  moreover have "\<bar>(1 - 8556839292003942 / 2 ^ 53) - 5/100 :: real\<bar> \<le> 1 / 2 ^ 53"
    by simp
  ultimately show ?thesis by linarith
qed

subsection \<open>The stages of the handler\<close>

lemma preprocessTransaction_value:
  "v \<noteq> JNull \<Longrightarrow> \<not> amountThrows v \<Longrightarrow>
   preprocessTransaction v g =
     Inr (\<lparr>Features.amount = parseFloatOfValue (field v ''amount''),
           customerRiskScore = g 0 * 0.5, merchantRiskScore = g 1 * 0.5,
           locationRiskScore = g 2 * 0.5, deviceRiskScore = g 3 * 0.5,
           ipRiskScore = g 4 * 0.5, timeOfDayRiskScore = g 5 * 0.5\<rparr>, \<lambda>n. g (n + 6))"
  by (auto simp: preprocessTransaction_def Number_parseFloat_def amountThrows_def
      parseFloatOfValue_def calculateCustomerRiskScore_def
      calculateMerchantRiskScore_def calculateLocationRiskScore_def
      calculateDeviceRiskScore_def calculateIPRiskScore_def calculateTimeRiskScore_def
      Math_random_def Let_def eval_nat_numeral split: option.splits)

lemma preprocessTransaction_null: "preprocessTransaction JNull g = Inl TypeError"
  by (simp add: preprocessTransaction_def)

lemma preprocessTransaction_throws:
  "amountThrows v \<Longrightarrow> preprocessTransaction v g = Inl TypeError"
  by (simp add: preprocessTransaction_def Number_parseFloat_def amountThrows_def
      split: option.splits)

lemma runClassicalMLModel_value:
  "runClassicalMLModel f g =
     (\<lparr>MLPrediction.isFraudulent = (riskScore f > 0.6),
       confidenceScore = (if riskScore f > 0.6 then riskScore f else 1 - riskScore f),
       MLPrediction.processingTime = 50 + g 0 * 30\<rparr>, \<lambda>n. g (n + 1))"
  by (simp add: runClassicalMLModel_def Math_random_def Let_def)

lemma runQuantumAnnealingSolver_value:
  "runQuantumAnnealingSolver f g =
     (\<lparr>QuantumResult.isFraudulent = (calculateQuantumRiskScore f > 0.5),
       QuantumResult.confidence =
         (if calculateQuantumRiskScore f > 0.5 then calculateQuantumRiskScore f * 100
          else (1 - calculateQuantumRiskScore f) * 100),
       QuantumResult.processingTime = 150 + g 0 * 100\<rparr>, \<lambda>n. g (n + 1))"
  by (simp add: runQuantumAnnealingSolver_def Math_random_def Let_def)

lemma handler_thrown:
  "JSON_parse (event.body ev) = Inl e \<Longrightarrow> handler JSON_parse ev g = (errorResponse, g)"
  "JSON_parse (event.body ev) = Inr JNull \<Longrightarrow> handler JSON_parse ev g = (errorResponse, g)"
  "JSON_parse (event.body ev) = Inr v \<Longrightarrow> amountThrows v \<Longrightarrow>
     handler JSON_parse ev g = (errorResponse, g)"
  by (simp_all add: handler_def preprocessTransaction_null preprocessTransaction_throws)

lemma handler_value:
  assumes "JSON_parse (event.body ev) = Inr v" "preprocessTransaction v g = Inr (f, g1)"
  shows "handler JSON_parse ev g =
     (if confidenceScore (fst (runClassicalMLModel f g1)) < 0.85 then
        (\<lparr>statusCode = 200, headers = [(''Content-Type'', ''application/json'')],
          response.body = ResultJson
            \<lparr>isFraudulent = QuantumResult.isFraudulent (fst (runQuantumAnnealingSolver f (snd (runClassicalMLModel f g1)))),
             confidence = QuantumResult.confidence (fst (runQuantumAnnealingSolver f (snd (runClassicalMLModel f g1)))),
             processingTime = QuantumResult.processingTime (fst (runQuantumAnnealingSolver f (snd (runClassicalMLModel f g1)))),
             quantumContribution = 75\<rparr>\<rparr>,
         snd (runQuantumAnnealingSolver f (snd (runClassicalMLModel f g1))))
      else
        (\<lparr>statusCode = 200, headers = [(''Content-Type'', ''application/json'')],
          response.body = ResultJson
            \<lparr>isFraudulent = MLPrediction.isFraudulent (fst (runClassicalMLModel f g1)),
             confidence = confidenceScore (fst (runClassicalMLModel f g1)) * 100,
             processingTime = MLPrediction.processingTime (fst (runClassicalMLModel f g1)),
             quantumContribution = 25\<rparr>\<rparr>,
         snd (runClassicalMLModel f g1)))"
  using assms by (simp add: handler_def Let_def split: prod.splits)

lemma riskScore_range:
  assumes "subscoresInRange f"
  shows "12/100 \<le> riskScore f \<and> riskScore f < 58/100"
  using assms unfolding subscoresInRange_def riskScore_def
  by (cases "js_gt (Features.amount f) 1000"; simp; linarith)

lemma preprocessTransaction_range:
  assumes "preprocessTransaction v g = Inr (f, g1)" "unit_draws 6 g"
  shows "subscoresInRange f \<and> g1 = (\<lambda>n. g (n + 6))"
proof -
  have nn: "v \<noteq> JNull" using assms(1) by (auto simp: preprocessTransaction_null)
  have nt: "\<not> amountThrows v" using assms(1) by (auto simp: preprocessTransaction_throws)
  have d: "\<forall>n<6. 0 \<le> g n \<and> g n < 1" using assms(2) by (simp add: unit_draws_def)
  have "0 \<le> g 0 \<and> g 0 < 1" "0 \<le> g 1 \<and> g 1 < 1" "0 \<le> g 2 \<and> g 2 < 1"
       "0 \<le> g 3 \<and> g 3 < 1" "0 \<le> g 4 \<and> g 4 < 1" "0 \<le> g 5 \<and> g 5 < 1"
    using d by simp_all
  then show ?thesis
    using assms(1) unfolding preprocessTransaction_value[OF nn nt]
    by (auto simp: subscoresInRange_def)
qed


lemma sampleParse_dashboard:
  "sampleParse (dashboardBody ''1250.00'') = Inr (jsonOfTransaction (dashboardTransaction ''1250.00''))"
  "sampleParse (dashboardBody ''50'') = Inr (jsonOfTransaction (dashboardTransaction ''50''))"
  "sampleParse (dashboardBody ''abc'') = Inr (jsonOfTransaction (dashboardTransaction ''abc''))"
  "sampleParse (dashboardBody ''0'') = Inr (jsonOfTransaction (dashboardTransaction ''0''))"
  by (simp_all add: sampleParse_def parseTable_def dashboardBody_def)

lemma sampleParse_other:
  "sampleParse ''null'' = Inr JNull"
  "sampleParse ''{}'' = Inr (JObj [])"
  "sampleParse ''[]'' = Inr (JArr [])"
  "sampleParse toStringBody = Inr (JObj [(''amount'', JObj [(''toString'', JNum (Num 1))])])"
  "sampleParse toStringArrayBody =
     Inr (JObj [(''amount'', JArr [JNum (Num 5), JObj [(''toString'', JNull)]])])"
  "sampleParse ''{'' = Inl SyntaxError"
  by (simp_all add: sampleParse_def parseTable_def dashboardBody_def toStringBody_def
      toStringArrayBody_def)

lemma field_amount: "field (jsonOfTransaction t) ''amount'' = Some (JStr (amount t))"
  by (simp add: jsonOfTransaction_def)

lemma jsonOfTransaction_not_null: "jsonOfTransaction t \<noteq> JNull"
  by (simp add: jsonOfTransaction_def)

lemma jsonOfTransaction_converts: "\<not> amountThrows (jsonOfTransaction t)"
  by (simp add: amountThrows_def field_amount)

lemma handler_cases:
  obtains (thrown) "(\<exists>e. JSON_parse (event.body ev) = Inl e) \<or>
        JSON_parse (event.body ev) = Inr JNull \<or>
        (\<exists>v. JSON_parse (event.body ev) = Inr v \<and> amountThrows v)"
      "handler JSON_parse ev g = (errorResponse, g)"
  | (answered) v f where "JSON_parse (event.body ev) = Inr v" "v \<noteq> JNull"
      "\<not> amountThrows v"
      "preprocessTransaction v g = Inr (f, \<lambda>n. g (n + 6))"
      "handler JSON_parse ev g =
        (if confidenceScore (fst (runClassicalMLModel f (\<lambda>n. g (n + 6)))) < 0.85 then
        (\<lparr>statusCode = 200, headers = [(''Content-Type'', ''application/json'')],
          response.body = ResultJson
            \<lparr>isFraudulent = QuantumResult.isFraudulent (fst (runQuantumAnnealingSolver f (\<lambda>n. g (n + 7)))),
             confidence = QuantumResult.confidence (fst (runQuantumAnnealingSolver f (\<lambda>n. g (n + 7)))),
             processingTime = QuantumResult.processingTime (fst (runQuantumAnnealingSolver f (\<lambda>n. g (n + 7)))),
             quantumContribution = 75\<rparr>\<rparr>,
         \<lambda>n. g (n + 8))
      else
        (\<lparr>statusCode = 200, headers = [(''Content-Type'', ''application/json'')],
          response.body = ResultJson
            \<lparr>isFraudulent = MLPrediction.isFraudulent (fst (runClassicalMLModel f (\<lambda>n. g (n + 6)))),
             confidence = confidenceScore (fst (runClassicalMLModel f (\<lambda>n. g (n + 6)))) * 100,
             processingTime = MLPrediction.processingTime (fst (runClassicalMLModel f (\<lambda>n. g (n + 6)))),
             quantumContribution = 25\<rparr>\<rparr>,
         \<lambda>n. g (n + 7)))"
proof (cases "JSON_parse (event.body ev)")
  case (Inl e)
  then show ?thesis using thrown handler_thrown(1) by blast
next
  case (Inr v)
  show ?thesis
  proof (cases "v = JNull")
    case True
    with Inr show ?thesis using thrown handler_thrown(2) by blast
  next
    case False
    show ?thesis
    proof (cases "amountThrows v")
      case True
      with Inr show ?thesis using thrown handler_thrown(3) by blast
    next
      case nt: False
    define f where "f = \<lparr>Features.amount = parseFloatOfValue (field v ''amount''),
           customerRiskScore = g 0 * 0.5, merchantRiskScore = g 1 * 0.5,
           locationRiskScore = g 2 * 0.5, deviceRiskScore = g 3 * 0.5,
           ipRiskScore = g 4 * 0.5, timeOfDayRiskScore = g 5 * 0.5\<rparr>"
    have pp: "preprocessTransaction v g = Inr (f, \<lambda>n. g (n + 6))"
      unfolding f_def by (rule preprocessTransaction_value[OF False nt])
    have s1: "snd (runClassicalMLModel f (\<lambda>n. g (n + 6))) = (\<lambda>n. g (n + 7))"
      by (simp add: runClassicalMLModel_value add.commute add.left_commute)
    have s2: "snd (runQuantumAnnealingSolver f (\<lambda>n. g (n + 7))) = (\<lambda>n. g (n + 8))"
      by (simp add: runQuantumAnnealingSolver_value add.commute add.left_commute)
    have hv: "handler JSON_parse ev g = (if confidenceScore (fst (runClassicalMLModel f (\<lambda>n. g (n + 6)))) < 0.85 then
        (\<lparr>statusCode = 200, headers = [(''Content-Type'', ''application/json'')],
          response.body = ResultJson
            \<lparr>isFraudulent = QuantumResult.isFraudulent (fst (runQuantumAnnealingSolver f (\<lambda>n. g (n + 7)))),
             confidence = QuantumResult.confidence (fst (runQuantumAnnealingSolver f (\<lambda>n. g (n + 7)))),
             processingTime = QuantumResult.processingTime (fst (runQuantumAnnealingSolver f (\<lambda>n. g (n + 7)))),
             quantumContribution = 75\<rparr>\<rparr>,
         \<lambda>n. g (n + 8))
      else
        (\<lparr>statusCode = 200, headers = [(''Content-Type'', ''application/json'')],
          response.body = ResultJson
            \<lparr>isFraudulent = MLPrediction.isFraudulent (fst (runClassicalMLModel f (\<lambda>n. g (n + 6)))),
             confidence = confidenceScore (fst (runClassicalMLModel f (\<lambda>n. g (n + 6)))) * 100,
             processingTime = MLPrediction.processingTime (fst (runClassicalMLModel f (\<lambda>n. g (n + 6)))),
             quantumContribution = 25\<rparr>\<rparr>,
         \<lambda>n. g (n + 7)))"
      using handler_value[where JSON_parse = JSON_parse and ev = ev and v = v and g = g
          and f = f and ?g1.0 = "\<lambda>n. g (n + 6)", OF Inr pp]
      by (simp only: s1 s2)
    show ?thesis
      using answered Inr False nt pp hv by blast
    qed
  qed
qed


lemma features_zero_50:
  "preprocessTransaction (jsonOfTransaction (dashboardTransaction ''50'')) (\<lambda>_. 0) =
     Inr (\<lparr>Features.amount = Num 50, customerRiskScore = 0, merchantRiskScore = 0,
           locationRiskScore = 0, deviceRiskScore = 0, ipRiskScore = 0,
           timeOfDayRiskScore = 0\<rparr>, \<lambda>_. 0)"
  by (simp add: preprocessTransaction_value[OF jsonOfTransaction_not_null jsonOfTransaction_converts] field_amount
      parseFloatOfValue_def dashboard_amount parseFloat_50)

lemma handler_zero_50:
  "handler sampleParse \<lparr>event.body = dashboardBody ''50''\<rparr> (\<lambda>_. 0) =
     (\<lparr>statusCode = 200, headers = [(''Content-Type'', ''application/json'')],
       response.body = ResultJson \<lparr>isFraudulent = False, confidence = 88,
         processingTime = 50, quantumContribution = 25\<rparr>\<rparr>, \<lambda>_. 0)"
proof -
  have p: "sampleParse (event.body \<lparr>event.body = dashboardBody ''50''\<rparr>) =
      Inr (jsonOfTransaction (dashboardTransaction ''50''))"
    by (simp add: sampleParse_dashboard)
  show ?thesis
    using handler_value[where JSON_parse = sampleParse
        and ev = "\<lparr>event.body = dashboardBody ''50''\<rparr>"
        and v = "jsonOfTransaction (dashboardTransaction ''50'')" and g = "\<lambda>_. 0"
        and ?g1.0 = "\<lambda>_. 0", OF p features_zero_50]
    by (simp add: runClassicalMLModel_value riskScore_def)
qed

lemma features_zero:
  "preprocessTransaction (jsonOfTransaction t) (\<lambda>_. 0) =
     Inr (\<lparr>Features.amount = parseFloat (amount t), customerRiskScore = 0,
           merchantRiskScore = 0, locationRiskScore = 0, deviceRiskScore = 0,
           ipRiskScore = 0, timeOfDayRiskScore = 0\<rparr>, \<lambda>_. 0)"
  by (simp add: preprocessTransaction_value[OF jsonOfTransaction_not_null jsonOfTransaction_converts] field_amount
      parseFloatOfValue_def)

lemma handler_zero_draws:
  assumes p: "JSON_parse (event.body ev) = Inr (jsonOfTransaction t)"
  shows "handler JSON_parse ev (\<lambda>_. 0) =
     (\<lparr>statusCode = 200, headers = [(''Content-Type'', ''application/json'')],
       response.body = ResultJson
         (if js_gt (parseFloat (amount t)) 1000
          then \<lparr>isFraudulent = False, confidence = 66, processingTime = 150,
                quantumContribution = 75\<rparr>
          else \<lparr>isFraudulent = False, confidence = 88, processingTime = 50,
                quantumContribution = 25\<rparr>)\<rparr>, \<lambda>_. 0)"
  using handler_value[where JSON_parse = JSON_parse and ev = ev
        and v = "jsonOfTransaction t" and g = "\<lambda>_. 0"
        and ?g1.0 = "\<lambda>_. 0", OF p features_zero]
  by (simp add: runClassicalMLModel_value runQuantumAnnealingSolver_value riskScore_def
      calculateQuantumRiskScore_def)

lemma handler_empty_object:
  assumes p: "JSON_parse (event.body ev) = Inr (JObj [])"
  shows "handler JSON_parse ev (\<lambda>_. 0) =
     (\<lparr>statusCode = 200, headers = [(''Content-Type'', ''application/json'')],
       response.body = ResultJson \<lparr>isFraudulent = False, confidence = 88,
         processingTime = 50, quantumContribution = 25\<rparr>\<rparr>, \<lambda>_. 0)"
proof -
  have nn: "JObj [] \<noteq> JNull" by simp
  have nt: "\<not> amountThrows (JObj [])" by (simp add: amountThrows_def)
  have pp: "preprocessTransaction (JObj []) (\<lambda>_. 0) =
     Inr (\<lparr>Features.amount = NaN, customerRiskScore = 0,
           merchantRiskScore = 0, locationRiskScore = 0, deviceRiskScore = 0,
           ipRiskScore = 0, timeOfDayRiskScore = 0\<rparr>, \<lambda>_. 0)"
    by (simp add: preprocessTransaction_value[OF nn nt] parseFloatOfValue_def)
  show ?thesis
    using handler_value[where JSON_parse = JSON_parse and ev = ev
        and v = "JObj []" and g = "\<lambda>_. 0" and ?g1.0 = "\<lambda>_. 0", OF p pp]
    by (simp add: runClassicalMLModel_value riskScore_def)
qed

lemma not_nonnegative_low:
  "\<not> isNonNegative n \<Longrightarrow> \<not> js_gt n 5000 \<and> \<not> js_gt n 1000"
  by (cases n) simp_all

lemma handler_amount_class:
  assumes p: "JSON_parse (event.body ev) = Inr v" and p': "JSON_parse (event.body ev') = Inr v'"
    and nn: "v \<noteq> JNull" and nn': "v' \<noteq> JNull"
    and nt: "\<not> amountThrows v" and nt': "\<not> amountThrows v'"
    and cls: "js_gt (parseFloatOfValue (field v ''amount'')) 1000 =
              js_gt (parseFloatOfValue (field v' ''amount'')) 1000"
  shows "handler JSON_parse ev g = handler JSON_parse ev' g"
proof -
  define f where "f = \<lparr>Features.amount = parseFloatOfValue (field v ''amount''),
           customerRiskScore = g 0 * 0.5, merchantRiskScore = g 1 * 0.5,
           locationRiskScore = g 2 * 0.5, deviceRiskScore = g 3 * 0.5,
           ipRiskScore = g 4 * 0.5, timeOfDayRiskScore = g 5 * 0.5\<rparr>"
  define f' where "f' = \<lparr>Features.amount = parseFloatOfValue (field v' ''amount''),
           customerRiskScore = g 0 * 0.5, merchantRiskScore = g 1 * 0.5,
           locationRiskScore = g 2 * 0.5, deviceRiskScore = g 3 * 0.5,
           ipRiskScore = g 4 * 0.5, timeOfDayRiskScore = g 5 * 0.5\<rparr>"
  have pp: "preprocessTransaction v g = Inr (f, \<lambda>n. g (n + 6))"
    unfolding f_def by (rule preprocessTransaction_value[OF nn nt])
  have pp': "preprocessTransaction v' g = Inr (f', \<lambda>n. g (n + 6))"
    unfolding f'_def by (rule preprocessTransaction_value[OF nn' nt'])
  have rs: "riskScore f = riskScore f'"
    using cls by (simp add: riskScore_def f_def f'_def)
  have qs: "calculateQuantumRiskScore f = calculateQuantumRiskScore f'"
    using cls by (simp add: calculateQuantumRiskScore_def f_def f'_def)
  have cl: "runClassicalMLModel f = runClassicalMLModel f'"
    by (rule ext) (simp only: runClassicalMLModel_value rs)
  have qu: "runQuantumAnnealingSolver f = runQuantumAnnealingSolver f'"
    by (rule ext) (simp only: runQuantumAnnealingSolver_value qs)
  show ?thesis
    unfolding
      handler_value[where JSON_parse = JSON_parse and ev = ev and v = v and g = g
        and f = f and ?g1.0 = "\<lambda>n. g (n + 6)", OF p pp]
      handler_value[where JSON_parse = JSON_parse and ev = ev' and v = v' and g = g
        and f = f' and ?g1.0 = "\<lambda>n. g (n + 6)", OF p' pp']
    by (simp only: cl qu)
qed

section \<open>The claims about detectFraud\<close>



text \<open>
  Claim C2. Whenever the amount parses to a number that is not negative and the four
  draws lie in [0,1), the result has its confidence and its quantum contribution within
  [0,100] and a positive processing time, whatever the tier.
\<close>

theorem detectFraud_result_bounds:
  assumes amt: "parseFloat (amount t) = Num a"
    and nonneg: "0 \<le> a"
    and draws: "unit_draws 4 g"
  shows "0 \<le> confidence (fst (detectFraud t g)) \<and>
         confidence (fst (detectFraud t g)) \<le> 100 \<and>
         0 \<le> quantumContribution (fst (detectFraud t g)) \<and>
         quantumContribution (fst (detectFraud t g)) \<le> 100 \<and>
         0 < processingTime (fst (detectFraud t g))"
proof -
  have d: "0 \<le> g 1" "g 1 < 1" "0 \<le> g 2" "0 \<le> g 3" "g 3 < 1"
    using draws by (simp_all add: unit_draws_def)
  have conf: "0 \<le> confidence (fst (detectFraud t g)) \<and>
              confidence (fst (detectFraud t g)) \<le> 100"
  proof (cases "js_gt (parseFloat (amount t)) 5000")
    case True
    then show ?thesis using d by (simp add: detectFraud_high)
  next
    case hi: False
    show ?thesis
    proof (cases "js_gt (parseFloat (amount t)) 1000")
      case True
      with hi show ?thesis using d by (simp add: detectFraud_medium)
    next
      case False
      then show ?thesis using d by (simp add: detectFraud_low)
    qed
  qed
  have rest: "0 \<le> quantumContribution (fst (detectFraud t g)) \<and>
         quantumContribution (fst (detectFraud t g)) \<le> 100 \<and>
         0 < processingTime (fst (detectFraud t g))"
    using d by (simp add: detectFraud_tail add_pos_nonneg)
  show ?thesis using conf rest by blast
qed

text \<open>The bounds at the dashboard's initial amount 1250.00, every draw one half.\<close>

theorem detectFraud_result_bounds_witness:
  "parseFloat (amount (dashboardTransaction ''1250.00'')) = Num 1250 \<and>
   unit_draws 4 (\<lambda>_. 1/2) \<and>
   confidence (fst (detectFraud (dashboardTransaction ''1250.00'') (\<lambda>_. 1/2))) = 90 \<and>
   quantumContribution (fst (detectFraud (dashboardTransaction ''1250.00'') (\<lambda>_. 1/2))) \<le> 100 \<and>
   0 < processingTime (fst (detectFraud (dashboardTransaction ''1250.00'') (\<lambda>_. 1/2)))"
proof -
  have h1: "parseFloat (amount (dashboardTransaction ''1250.00'')) = Num 1250"
    by (simp add: dashboard_amount parseFloat_1250)
  have h2: "(0::real) \<le> 1250" by simp
  have h3: "unit_draws 4 (\<lambda>_. 1/2 :: real)"
    by (simp add: unit_draws_const)
  have c: "\<not> js_gt (parseFloat (amount (dashboardTransaction ''1250.00''))) 5000"
      "js_gt (parseFloat (amount (dashboardTransaction ''1250.00''))) 1000"
    by (simp_all add: h1)
  have v: "confidence (fst (detectFraud (dashboardTransaction ''1250.00'') (\<lambda>_. 1/2))) = 90"
    by (simp add: detectFraud_medium[OF c])
  show ?thesis
    using detectFraud_result_bounds[OF h1 h2 h3] h1 h3 v by simp
qed

text \<open>
  Claim C6, as stated, fails at the upper end of the quantum contribution: the interval
  [60,85) is left. At the draw \<open>1 - 2^(-52)\<close>, a double below one, the product with 25
  rounds to \<open>25 - 2^(-47)\<close> and its sum with 60 lies half way between two doubles and
  rounds to the even one, 85.
\<close>

theorem quantumContribution_attains_85_counterexample:
  "0 \<le> (1 - 1 / 2 ^ 52 :: real) \<and> (1 - 1 / 2 ^ 52 :: real) < 1 \<and>
   round64 (1 - 1 / 2 ^ 52) = 1 - 1 / 2 ^ 52 \<and>
   quantumContribution
     (fst (detectFraud64 (dashboardTransaction ''1250.00'') (\<lambda>_. 1 - 1 / 2 ^ 52))) = 85 \<and>
   quantumContribution
     (fst (detectFraud64 (dashboardTransaction ''1250.00'') (\<lambda>_. 1 - 1 / 2 ^ 52)))
     \<notin> {60..<85}"
proof -
  have v: "quantumContribution
     (fst (detectFraud64 (dashboardTransaction ''1250.00'') (\<lambda>_. 1 - 1 / 2 ^ 52))) = 85"
    by (simp only: detectFraud64_tail product_25_last sum_85_last)
  have a: "0 \<le> (1 - 1 / 2 ^ 52 :: real)" "(1 - 1 / 2 ^ 52 :: real) < 1"
    by simp_all
  have n: "quantumContribution
     (fst (detectFraud64 (dashboardTransaction ''1250.00'') (\<lambda>_. 1 - 1 / 2 ^ 52)))
     \<notin> {60..<85}"
    unfolding v by simp
  show ?thesis
    by (intro conjI a last_draw v n)
qed

text \<open>
  Claim C6, amended. For every transaction and draws that are doubles in [0,1), the
  processing time is the double nearest to 100 plus the double nearest to \<open>150 * r\<close>,
  for the third draw \<open>r\<close>, and lies in [100,250); the quantum contribution is the double
  nearest to 60 plus the double nearest to \<open>25 * r'\<close>, for the fourth draw \<open>r'\<close>, and
  lies in the closed interval [60,85].
\<close>

theorem detectFraud64_time_and_quantum_ranges:
  assumes draws: "double_draws 4 g"
  shows "processingTime (fst (detectFraud64 t g)) = round64 (100 + round64 (g 2 * 150)) \<and>
         processingTime (fst (detectFraud64 t g)) \<in> {100..<250} \<and>
         quantumContribution (fst (detectFraud64 t g)) = round64 (60 + round64 (g 3 * 25)) \<and>
         quantumContribution (fst (detectFraud64 t g)) \<in> {60..85}"
proof -
  have d2: "0 \<le> g 2" "g 2 < 1" "round64 (g 2) = g 2"
    and d3: "0 \<le> g 3" "g 3 < 1"
    using draws by (simp_all add: double_draws_def)
  have t1: "100 \<le> round64 (100 + round64 (g 2 * 150))"
    using scaled_draw_bounds[OF d2(1,2), of 100 150] by simp
  have t2: "round64 (100 + round64 (g 2 * 150)) < 250"
    by (rule processingTime_below_250[OF d2])
  have q: "60 \<le> round64 (60 + round64 (g 3 * 25)) \<and>
           round64 (60 + round64 (g 3 * 25)) \<le> 85"
    using scaled_draw_bounds[OF d3, of 60 25] by simp
  show ?thesis
    using t1 t2 q by (simp add: detectFraud64_tail)
qed

text \<open>With every draw one half the two fields are the midpoints 175 and 72.5.\<close>

theorem detectFraud64_time_and_quantum_ranges_witness:
  "double_draws 4 (\<lambda>_. 1/2) \<and>
   processingTime (fst (detectFraud64 (dashboardTransaction ''1250.00'') (\<lambda>_. 1/2))) = 175 \<and>
   quantumContribution (fst (detectFraud64 (dashboardTransaction ''1250.00'') (\<lambda>_. 1/2))) = 145/2"
proof -
  have h: "double_draws 4 (\<lambda>_. 1/2 :: real)"
    by (simp add: double_draws_def half_draw)
  have e1: "round64 75 = 75" "round64 175 = 175"
    using round64_whole[of 75] round64_whole[of 175] by simp_all
  have e2: "round64 (25 / 2) = 25 / 2" "round64 (145 / 2) = 145 / 2"
    using round64_halves[of 25] round64_halves[of 145] by simp_all
  show ?thesis
    using detectFraud64_time_and_quantum_ranges[OF h, of "dashboardTransaction ''1250.00''"] h
    by (simp add: e1 e2)
qed


text \<open>
  Claim C8, as stated, fails at the upper end of the confidence: the interval [90,100)
  is left. For the amount \<^verbatim>\<open>abc\<close> and the draw \<open>1 - 2^(-52)\<close> the verdict is
  fraudulent, the product with 5 rounds to \<open>5 - 2^(-50)\<close> and its sum with 95 rounds
  to 100.
\<close>

theorem unparsed_confidence_attains_100_counterexample:
  "parseFloat (amount (dashboardTransaction ''abc'')) = NaN \<and>
   0 \<le> (1 - 1 / 2 ^ 52 :: real) \<and> (1 - 1 / 2 ^ 52 :: real) < 1 \<and>
   round64 (1 - 1 / 2 ^ 52) = 1 - 1 / 2 ^ 52 \<and>
   isFraudulent (fst (detectFraud64 (dashboardTransaction ''abc'') (\<lambda>_. 1 - 1 / 2 ^ 52))) \<and>
   confidence (fst (detectFraud64 (dashboardTransaction ''abc'') (\<lambda>_. 1 - 1 / 2 ^ 52))) = 100 \<and>
   confidence (fst (detectFraud64 (dashboardTransaction ''abc'') (\<lambda>_. 1 - 1 / 2 ^ 52)))
     \<notin> {90..<100}"
proof -
  have p: "parseFloat (amount (dashboardTransaction ''abc'')) = NaN"
    by (simp add: dashboard_amount parseFloat_abc)
  have c: "\<not> js_gt (parseFloat (amount (dashboardTransaction ''abc''))) 1000"
    by (simp add: p)
  have a: "0 \<le> (1 - 1 / 2 ^ 52 :: real)" "(1 - 1 / 2 ^ 52 :: real) < 1"
    by simp_all
  have th: "round64 (95 / 100) < 1 - 1 / 2 ^ 52"
    unfolding threshold_95 by simp
  have f: "isFraudulent (fst (detectFraud64 (dashboardTransaction ''abc'') (\<lambda>_. 1 - 1 / 2 ^ 52)))"
    using th by (simp only: detectFraud64_low[OF c] fst_conv DetectionResult.simps)
  have v: "confidence (fst (detectFraud64 (dashboardTransaction ''abc'') (\<lambda>_. 1 - 1 / 2 ^ 52))) = 100"
    using th by (simp only: detectFraud64_low[OF c] fst_conv DetectionResult.simps if_True
        product_5_last sum_100_last)
  have n: "confidence (fst (detectFraud64 (dashboardTransaction ''abc'') (\<lambda>_. 1 - 1 / 2 ^ 52)))
     \<notin> {90..<100}"
    unfolding v by simp
  show ?thesis
    by (intro conjI p a last_draw f v n)
qed

text \<open>
  Claim C8, amended. When the amount does not parse (\<open>NaN\<close>), detectFraud does not fail:
  both tier comparisons are false and the low-value branch computes the result,
  fraudulent exactly when the first draw exceeds the double nearest to 0.95 (a share of
  5% of equally spaced draws, up to \<open>1/N + 2^(-53)\<close>) and with a confidence in the
  closed interval [90,100].
\<close>

theorem detectFraud64_unparsed_amount:
  assumes nan: "parseFloat (amount t) = NaN"
    and draws: "unit_draws 2 g"
    and N: "0 < N"
  shows "\<not> js_gt (parseFloat (amount t)) 5000 \<and>
         \<not> js_gt (parseFloat (amount t)) 1000 \<and>
         fst (detectFraud64 t g) =
           \<lparr>isFraudulent = (round64 (95/100) < g 0),
            confidence = (if round64 (95/100) < g 0 then round64 (95 + round64 (g 1 * 5))
                          else round64 (90 + round64 (g 1 * 8))),
            processingTime = round64 (100 + round64 (g 2 * 150)),
            quantumContribution = round64 (60 + round64 (g 3 * 25))\<rparr> \<and>
         confidence (fst (detectFraud64 t g)) \<in> {90..100} \<and>
         \<bar>fraudShare64 t N - 5/100\<bar> \<le> 1 / real N + 1 / 2 ^ 53"
proof -
  have c: "\<not> js_gt (parseFloat (amount t)) 1000"
    using nan by simp
  have g1: "0 \<le> g 1" "g 1 < 1"
    using draws by (simp_all add: unit_draws_def)
  have hi: "95 \<le> round64 (95 + round64 (g 1 * 5)) \<and> round64 (95 + round64 (g 1 * 5)) \<le> 100"
    using scaled_draw_bounds[OF g1, of 95 5] by simp
  have lo: "90 \<le> round64 (90 + round64 (g 1 * 8)) \<and> round64 (90 + round64 (g 1 * 8)) \<le> 98"
    using scaled_draw_bounds[OF g1, of 90 8] by simp
  have conf: "confidence (fst (detectFraud64 t g)) \<in> {90..100}"
    using hi lo by (simp add: detectFraud64_low[OF c])
  have res: "fst (detectFraud64 t g) =
           \<lparr>isFraudulent = (round64 (95/100) < g 0),
            confidence = (if round64 (95/100) < g 0 then round64 (95 + round64 (g 1 * 5))
                          else round64 (90 + round64 (g 1 * 8))),
            processingTime = round64 (100 + round64 (g 2 * 150)),
            quantumContribution = round64 (60 + round64 (g 3 * 25))\<rparr>"
    by (simp only: detectFraud64_low[OF c] fst_conv)
  have n1: "\<not> js_gt (parseFloat (amount t)) 5000" using nan by simp
  show ?thesis
    by (intro conjI n1 c res conf fraudShare64_low[OF c N])
qed

text \<open>The amount \<^verbatim>\<open>abc\<close> with every draw one half: not fraudulent, confidence 94.\<close>

theorem detectFraud64_unparsed_amount_witness:
  "parseFloat (amount (dashboardTransaction ''abc'')) = NaN \<and>
   unit_draws 2 (\<lambda>_. 1/2) \<and>
   fst (detectFraud64 (dashboardTransaction ''abc'') (\<lambda>_. 1/2)) =
     \<lparr>isFraudulent = False, confidence = 94, processingTime = 175,
      quantumContribution = 145/2\<rparr> \<and>
   confidence (fst (detectFraud64 (dashboardTransaction ''abc'') (\<lambda>_. 1/2))) \<in> {90..100} \<and>
   \<bar>fraudShare64 (dashboardTransaction ''abc'') 1000 - 5/100\<bar> \<le> 1 / 1000 + 1 / 2 ^ 53"
proof -
  have h1: "parseFloat (amount (dashboardTransaction ''abc'')) = NaN"
    by (simp add: dashboard_amount parseFloat_abc)
  have h2: "unit_draws 2 (\<lambda>_. 1/2 :: real)"
    by (simp add: unit_draws_const)
  have h3: "0 < (1000::nat)" by simp
  have th: "\<not> round64 (95 / 100) < 1 / 2"
    unfolding threshold_95 by simp
  have e: "round64 4 = 4" "round64 94 = 94" "round64 75 = 75" "round64 175 = 175"
    using round64_whole[of 4] round64_whole[of 94] round64_whole[of 75] round64_whole[of 175]
    by simp_all
  have e2: "round64 (25 / 2) = 25 / 2" "round64 (145 / 2) = 145 / 2"
    using round64_halves[of 25] round64_halves[of 145] by simp_all
  note inst = detectFraud64_unparsed_amount[OF h1 h2 h3]
  have r: "fst (detectFraud64 (dashboardTransaction ''abc'') (\<lambda>_. 1/2)) =
     \<lparr>isFraudulent = False, confidence = 94, processingTime = 175,
      quantumContribution = 145/2\<rparr>"
    using inst th by (simp add: e e2)
  have s: "\<bar>fraudShare64 (dashboardTransaction ''abc'') 1000 - 5/100\<bar> \<le> 1 / 1000 + 1 / 2 ^ 53"
    using inst by simp
  have cf: "confidence (fst (detectFraud64 (dashboardTransaction ''abc'') (\<lambda>_. 1/2))) \<in> {90..100}"
    using inst by blast
  show ?thesis
    by (intro conjI h1 h2 r cf s)
qed


section \<open>The claims about the handler\<close>

text \<open>
  Claim C9. The classical screening stage never classifies a transaction as fraudulent:
  for every feature object with sub-scores in [0,0.5) the weighted risk score is at most
  \<open>0.4 * 0.7 + 0.6 * 0.5 = 0.58\<close>, below the threshold 0.6, so the stage's verdict is
  negative. Hence, whenever the handler keeps the classical result (classical confidence
  not below 0.85, draws in [0,1)), its response has status 200 and a negative verdict.
\<close>

theorem classical_stage_never_fraudulent:
  "(subscoresInRange f \<longrightarrow>
      riskScore f \<le> 0.4 * 0.7 + 0.6 * 0.5 \<and> riskScore f < 0.6 \<and>
      \<not> MLPrediction.isFraudulent (fst (runClassicalMLModel f g'))) \<and>
   (JSON_parse (event.body ev) = Inr v \<and> preprocessTransaction v g = Inr (f', g1) \<and>
    unit_draws 6 g \<and> \<not> confidenceScore (fst (runClassicalMLModel f' g1)) < 0.85 \<longrightarrow>
      statusCode (fst (handler JSON_parse ev g)) = 200 \<and>
      (\<exists>r. response.body (fst (handler JSON_parse ev g)) = ResultJson r \<and>
           \<not> isFraudulent r \<and> quantumContribution r = 25))"
proof (intro conjI impI)
  assume r: "subscoresInRange f"
  have b: "12/100 \<le> riskScore f \<and> riskScore f < 58/100"
    by (rule riskScore_range[OF r])
  show "riskScore f \<le> 0.4 * 0.7 + 0.6 * 0.5" using b by simp
  show "riskScore f < 0.6" using b by simp
  show "\<not> MLPrediction.isFraudulent (fst (runClassicalMLModel f g'))"
    using b by (simp add: runClassicalMLModel_value)
next
  assume h: "JSON_parse (event.body ev) = Inr v \<and> preprocessTransaction v g = Inr (f', g1) \<and>
    unit_draws 6 g \<and> \<not> confidenceScore (fst (runClassicalMLModel f' g1)) < 0.85"
  then have p: "JSON_parse (event.body ev) = Inr v" and pp: "preprocessTransaction v g = Inr (f', g1)"
    and d: "unit_draws 6 g" and c: "\<not> confidenceScore (fst (runClassicalMLModel f' g1)) < 0.85"
    by simp_all
  have "subscoresInRange f'"
    using preprocessTransaction_range[OF pp d] by simp
  then have b: "riskScore f' < 58/100"
    using riskScore_range by blast
  have nf: "\<not> MLPrediction.isFraudulent (fst (runClassicalMLModel f' g1))"
    using b by (simp add: runClassicalMLModel_value)
  have hv: "fst (handler JSON_parse ev g) =
      \<lparr>statusCode = 200, headers = [(''Content-Type'', ''application/json'')],
          response.body = ResultJson
            \<lparr>isFraudulent = MLPrediction.isFraudulent (fst (runClassicalMLModel f' g1)),
             confidence = confidenceScore (fst (runClassicalMLModel f' g1)) * 100,
             processingTime = MLPrediction.processingTime (fst (runClassicalMLModel f' g1)),
             quantumContribution = 25\<rparr>\<rparr>"
    using c handler_value[where JSON_parse = JSON_parse and ev = ev and v = v and g = g
        and f = f' and ?g1.0 = g1, OF p pp]
    by (simp only: if_False fst_conv)
  show "statusCode (fst (handler JSON_parse ev g)) = 200"
    by (simp add: hv)
  show "\<exists>r. response.body (fst (handler JSON_parse ev g)) = ResultJson r \<and>
           \<not> isFraudulent r \<and> quantumContribution r = 25"
    using nf by (simp add: hv)
qed

text \<open>
  The dashboard's body with the amount 50 and every draw zero: the risk score is 0.12,
  the classical confidence 0.88, and the response carries the classical verdict.
\<close>

theorem classical_stage_never_fraudulent_witness:
  "subscoresInRange \<lparr>Features.amount = Num 50, customerRiskScore = 0, merchantRiskScore = 0,
           locationRiskScore = 0, deviceRiskScore = 0, ipRiskScore = 0,
           timeOfDayRiskScore = 0\<rparr> \<and>
   sampleParse (event.body \<lparr>event.body = dashboardBody ''50''\<rparr>) =
      Inr (jsonOfTransaction (dashboardTransaction ''50'')) \<and>
   unit_draws 6 (\<lambda>_. 0) \<and>
   statusCode (fst (handler sampleParse \<lparr>event.body = dashboardBody ''50''\<rparr> (\<lambda>_. 0))) = 200 \<and>
   response.body (fst (handler sampleParse \<lparr>event.body = dashboardBody ''50''\<rparr> (\<lambda>_. 0))) =
     ResultJson \<lparr>isFraudulent = False, confidence = 88, processingTime = 50,
       quantumContribution = 25\<rparr>"
proof -
  let ?f = "\<lparr>Features.amount = Num 50, customerRiskScore = 0, merchantRiskScore = 0,
           locationRiskScore = 0, deviceRiskScore = 0, ipRiskScore = 0,
           timeOfDayRiskScore = 0\<rparr>"
  have h1: "subscoresInRange ?f" by (simp add: subscoresInRange_def)
  have h2: "sampleParse (event.body \<lparr>event.body = dashboardBody ''50''\<rparr>) =
      Inr (jsonOfTransaction (dashboardTransaction ''50''))"
    by (simp add: sampleParse_dashboard)
  have h3: "unit_draws 6 (\<lambda>_. 0 :: real)" by (simp add: unit_draws_const)
  have h4: "\<not> confidenceScore (fst (runClassicalMLModel ?f (\<lambda>_. 0))) < 0.85"
    by (simp add: runClassicalMLModel_value riskScore_def)
  have "statusCode (fst (handler sampleParse \<lparr>event.body = dashboardBody ''50''\<rparr> (\<lambda>_. 0))) = 200"
    using classical_stage_never_fraudulent[of ?f "\<lambda>_. 0" sampleParse
        "\<lparr>event.body = dashboardBody ''50''\<rparr>" "jsonOfTransaction (dashboardTransaction ''50'')"
        "\<lambda>_. 0" ?f "\<lambda>_. 0"] h1 h2 h3 h4 features_zero_50
    by blast
  then show ?thesis
    using h1 h2 h3 by (simp add: handler_zero_50)
qed








text \<open>
  Claim C5, as stated, fails: malformed input is not answered in the 4xx range. The
  text \<^verbatim>\<open>{\<close>, which \<^verbatim>\<open>JSON.parse\<close> rejects, is answered with status 500.
\<close>

theorem handler_malformed_counterexample:
  "sampleParse (event.body \<lparr>event.body = ''{''\<rparr>) = Inl SyntaxError \<and>
   handler sampleParse \<lparr>event.body = ''{''\<rparr> (\<lambda>_. 0) =
     (\<lparr>statusCode = 500, headers = [(''Content-Type'', ''application/json'')],
       response.body = ErrorJson ''Failed to process transaction''\<rparr>, \<lambda>_. 0) \<and>
   statusCode (fst (handler sampleParse \<lparr>event.body = ''{''\<rparr> (\<lambda>_. 0))) \<notin> {400..499}"
proof -
  have p1: "sampleParse (event.body \<lparr>event.body = ''{''\<rparr>) = Inl SyntaxError"
    by (simp add: sampleParse_other)
  have v1: "handler sampleParse \<lparr>event.body = ''{''\<rparr> (\<lambda>_. 0) = (errorResponse, \<lambda>_. 0)"
    using handler_thrown(1)[where JSON_parse = sampleParse
        and ev = "\<lparr>event.body = ''{''\<rparr>", OF p1] .
  show ?thesis
    using p1 by (simp add: v1 errorResponse_def)
qed

text \<open>
  Claim C5, amended. For every event that carries a body text the handler never throws:
  it gives one of two answers. A body that \<^verbatim>\<open>JSON.parse\<close> rejects, the body \<^verbatim>\<open>null\<close> and
  a body whose amount cannot be converted to a string (an object with a member
  \<^verbatim>\<open>toString\<close>, or an array that holds one) are answered with status 500 and the object
  \<^verbatim>\<open>{ error: "Failed to process transaction" }\<close>, the random source untouched; every
  other body is answered with status 200 and a detection result. Both answers carry the
  JSON content type, and no answer has a 4xx status.
\<close>

theorem handler_answers:
  "(((\<exists>e. JSON_parse (event.body ev) = Inl e) \<or> JSON_parse (event.body ev) = Inr JNull \<or>
     (\<exists>v. JSON_parse (event.body ev) = Inr v \<and> amountThrows v)) \<and>
    handler JSON_parse ev g =
      (\<lparr>statusCode = 500, headers = [(''Content-Type'', ''application/json'')],
        response.body = ErrorJson ''Failed to process transaction''\<rparr>, g)) \<or>
   ((\<exists>v. JSON_parse (event.body ev) = Inr v \<and> v \<noteq> JNull \<and> \<not> amountThrows v) \<and>
    statusCode (fst (handler JSON_parse ev g)) = 200 \<and>
    headers (fst (handler JSON_parse ev g)) = [(''Content-Type'', ''application/json'')] \<and>
    (\<exists>r. response.body (fst (handler JSON_parse ev g)) = ResultJson r))"
proof (cases rule: handler_cases[of JSON_parse ev g])
  case thrown
  then show ?thesis by (simp add: errorResponse_def)
next
  case (answered v f)
  have "\<exists>v. JSON_parse (event.body ev) = Inr v \<and> v \<noteq> JNull \<and> \<not> amountThrows v"
    using answered(1,2,3) by blast
  moreover have "statusCode (fst (handler JSON_parse ev g)) = 200 \<and>
    headers (fst (handler JSON_parse ev g)) = [(''Content-Type'', ''application/json'')] \<and>
    (\<exists>r. response.body (fst (handler JSON_parse ev g)) = ResultJson r)"
    by (simp add: answered(5))
  ultimately show ?thesis by blast
qed

text \<open>
  The body \<^verbatim>\<open>null\<close> and a body whose amount is an array holding an object with a member
  \<^verbatim>\<open>toString\<close> are answered with status 500; the empty object, which has none of the
  transaction's fields, is answered with status 200 and a detection result.
\<close>

theorem handler_answers_witness:
  "sampleParse (event.body \<lparr>event.body = ''null''\<rparr>) = Inr JNull \<and>
   handler sampleParse \<lparr>event.body = ''null''\<rparr> (\<lambda>_. 0) =
      (\<lparr>statusCode = 500, headers = [(''Content-Type'', ''application/json'')],
        response.body = ErrorJson ''Failed to process transaction''\<rparr>, \<lambda>_. 0) \<and>
   sampleParse (event.body \<lparr>event.body = toStringArrayBody\<rparr>) =
     Inr (JObj [(''amount'', JArr [JNum (Num 5), JObj [(''toString'', JNull)]])]) \<and>
   amountThrows (JObj [(''amount'', JArr [JNum (Num 5), JObj [(''toString'', JNull)]])]) \<and>
   handler sampleParse \<lparr>event.body = toStringArrayBody\<rparr> (\<lambda>_. 0) =
      (\<lparr>statusCode = 500, headers = [(''Content-Type'', ''application/json'')],
        response.body = ErrorJson ''Failed to process transaction''\<rparr>, \<lambda>_. 0) \<and>
   sampleParse (event.body \<lparr>event.body = ''{}''\<rparr>) = Inr (JObj []) \<and>
   handler sampleParse \<lparr>event.body = ''{}''\<rparr> (\<lambda>_. 0) =
     (\<lparr>statusCode = 200, headers = [(''Content-Type'', ''application/json'')],
       response.body = ResultJson \<lparr>isFraudulent = False, confidence = 88,
         processingTime = 50, quantumContribution = 25\<rparr>\<rparr>, \<lambda>_. 0)"
proof -
  have p1: "sampleParse (event.body \<lparr>event.body = ''null''\<rparr>) = Inr JNull"
    by (simp add: sampleParse_other)
  have p2: "sampleParse (event.body \<lparr>event.body = ''{}''\<rparr>) = Inr (JObj [])"
    by (simp add: sampleParse_other)
  have p3: "sampleParse (event.body \<lparr>event.body = toStringArrayBody\<rparr>) =
     Inr (JObj [(''amount'', JArr [JNum (Num 5), JObj [(''toString'', JNull)]])])"
    by (simp add: sampleParse_other)
  have t3: "amountThrows (JObj [(''amount'', JArr [JNum (Num 5), JObj [(''toString'', JNull)]])])"
    by (simp add: amountThrows_def)
  have n3: "JObj [(''amount'', JArr [JNum (Num 5), JObj [(''toString'', JNull)]])] \<noteq> JNull"
    by simp
  have v1: "handler sampleParse \<lparr>event.body = ''null''\<rparr> (\<lambda>_. 0) =
      (\<lparr>statusCode = 500, headers = [(''Content-Type'', ''application/json'')],
        response.body = ErrorJson ''Failed to process transaction''\<rparr>, \<lambda>_. 0)"
    using handler_answers[where JSON_parse = sampleParse
        and ev = "\<lparr>event.body = ''null''\<rparr>" and g = "\<lambda>_. 0"] p1
    by auto
  have v3: "handler sampleParse \<lparr>event.body = toStringArrayBody\<rparr> (\<lambda>_. 0) =
      (\<lparr>statusCode = 500, headers = [(''Content-Type'', ''application/json'')],
        response.body = ErrorJson ''Failed to process transaction''\<rparr>, \<lambda>_. 0)"
    using handler_answers[where JSON_parse = sampleParse
        and ev = "\<lparr>event.body = toStringArrayBody\<rparr>" and g = "\<lambda>_. 0"] p3 t3
    by auto
  have v2: "handler sampleParse \<lparr>event.body = ''{}''\<rparr> (\<lambda>_. 0) =
     (\<lparr>statusCode = 200, headers = [(''Content-Type'', ''application/json'')],
       response.body = ResultJson \<lparr>isFraudulent = False, confidence = 88,
         processingTime = 50, quantumContribution = 25\<rparr>\<rparr>, \<lambda>_. 0)"
    using handler_empty_object[where JSON_parse = sampleParse
        and ev = "\<lparr>event.body = ''{}''\<rparr>", OF p2] .
  show ?thesis
    using p1 p2 p3 t3 v1 v2 v3 by blast
qed

section \<open>The claim about input validation\<close>

text \<open>
  Claim C3, as stated, fails: an amount that does not parse is not rejected. For the
  amount \<^verbatim>\<open>abc\<close>, which parses to \<open>NaN\<close>, detectFraud returns a low-tier result and the
  handler answers with status 200 and a detection result.
\<close>

theorem unparsed_amount_counterexample:
  "parseFloat (amount (dashboardTransaction ''abc'')) = NaN \<and>
   detectFraud (dashboardTransaction ''abc'') (\<lambda>_. 0) =
     (\<lparr>isFraudulent = False, confidence = 90, processingTime = 100,
       quantumContribution = 60\<rparr>, \<lambda>_. 0) \<and>
   sampleParse (event.body \<lparr>event.body = dashboardBody ''abc''\<rparr>) =
     Inr (jsonOfTransaction (dashboardTransaction ''abc'')) \<and>
   handler sampleParse \<lparr>event.body = dashboardBody ''abc''\<rparr> (\<lambda>_. 0) =
     (\<lparr>statusCode = 200, headers = [(''Content-Type'', ''application/json'')],
       response.body = ResultJson \<lparr>isFraudulent = False, confidence = 88,
         processingTime = 50, quantumContribution = 25\<rparr>\<rparr>, \<lambda>_. 0)"
proof -
  have a: "parseFloat (amount (dashboardTransaction ''abc'')) = NaN"
    by (simp add: dashboard_amount parseFloat_abc)
  have c: "\<not> js_gt (parseFloat (amount (dashboardTransaction ''abc''))) 1000"
    by (simp add: a)
  have d: "detectFraud (dashboardTransaction ''abc'') (\<lambda>_. 0) =
     (\<lparr>isFraudulent = False, confidence = 90, processingTime = 100,
       quantumContribution = 60\<rparr>, \<lambda>_. 0)"
    by (simp add: detectFraud_low[OF c])
  have p: "sampleParse (event.body \<lparr>event.body = dashboardBody ''abc''\<rparr>) =
     Inr (jsonOfTransaction (dashboardTransaction ''abc''))"
    by (simp add: sampleParse_dashboard)
  have h: "handler sampleParse \<lparr>event.body = dashboardBody ''abc''\<rparr> (\<lambda>_. 0) =
     (\<lparr>statusCode = 200, headers = [(''Content-Type'', ''application/json'')],
       response.body = ResultJson \<lparr>isFraudulent = False, confidence = 88,
         processingTime = 50, quantumContribution = 25\<rparr>\<rparr>, \<lambda>_. 0)"
    using handler_zero_draws[where JSON_parse = sampleParse
        and ev = "\<lparr>event.body = dashboardBody ''abc''\<rparr>", OF p]
    by (simp add: a)
  show ?thesis using a d p h by blast
qed

text \<open>
  Claim C3, amended. For every transaction whose amount does not parse to a number that
  is not negative (\<open>NaN\<close>, a negative number or negative infinity), neither function
  fails. Under the same random source detectFraud returns exactly what it returns for
  the amount \<^verbatim>\<open>0\<close>, and the handler answers exactly as it does for the amount \<^verbatim>\<open>0\<close>:
  with status 200 and a detection result.
\<close>

theorem unparsed_amount_scored_as_zero:
  assumes bad: "\<not> isNonNegative (parseFloat (amount t))"
  shows "detectFraud t g = detectFraud (t\<lparr>amount := ''0''\<rparr>) g \<and>
         (JSON_parse (event.body ev) = Inr (jsonOfTransaction t) \<and>
          JSON_parse (event.body ev0) = Inr (jsonOfTransaction (t\<lparr>amount := ''0''\<rparr>)) \<longrightarrow>
            handler JSON_parse ev g = handler JSON_parse ev0 g \<and>
            statusCode (fst (handler JSON_parse ev g)) = 200 \<and>
            (\<exists>r. response.body (fst (handler JSON_parse ev g)) = ResultJson r))"
proof (intro conjI impI)
  have c: "\<not> js_gt (parseFloat (amount t)) 5000" "\<not> js_gt (parseFloat (amount t)) 1000"
    using not_nonnegative_low[OF bad] by simp_all
  have c0: "\<not> js_gt (parseFloat (amount (t\<lparr>amount := ''0''\<rparr>))) 1000"
    by (simp add: parseFloat_0)
  show "detectFraud t g = detectFraud (t\<lparr>amount := ''0''\<rparr>) g"
    by (simp only: detectFraud_low[OF c(2)] detectFraud_low[OF c0])
  assume h: "JSON_parse (event.body ev) = Inr (jsonOfTransaction t) \<and>
          JSON_parse (event.body ev0) = Inr (jsonOfTransaction (t\<lparr>amount := ''0''\<rparr>))"
  then have p: "JSON_parse (event.body ev) = Inr (jsonOfTransaction t)"
    and p0: "JSON_parse (event.body ev0) = Inr (jsonOfTransaction (t\<lparr>amount := ''0''\<rparr>))"
    by simp_all
  have cls: "js_gt (parseFloatOfValue (field (jsonOfTransaction t) ''amount'')) 1000 =
      js_gt (parseFloatOfValue (field (jsonOfTransaction (t\<lparr>amount := ''0''\<rparr>)) ''amount'')) 1000"
    using c(2) by (simp add: field_amount parseFloatOfValue_def parseFloat_0)
  show "handler JSON_parse ev g = handler JSON_parse ev0 g"
    by (rule handler_amount_class[where v = "jsonOfTransaction t"
          and v' = "jsonOfTransaction (t\<lparr>amount := ''0''\<rparr>)",
          OF p p0 jsonOfTransaction_not_null jsonOfTransaction_not_null
            jsonOfTransaction_converts jsonOfTransaction_converts cls])
  show "statusCode (fst (handler JSON_parse ev g)) = 200"
    using handler_value[where JSON_parse = JSON_parse and ev = ev
        and v = "jsonOfTransaction t" and g = g,
        OF p preprocessTransaction_value[OF jsonOfTransaction_not_null jsonOfTransaction_converts]]
    by simp
  show "\<exists>r. response.body (fst (handler JSON_parse ev g)) = ResultJson r"
    using handler_value[where JSON_parse = JSON_parse and ev = ev
        and v = "jsonOfTransaction t" and g = g,
        OF p preprocessTransaction_value[OF jsonOfTransaction_not_null jsonOfTransaction_converts]]
    by simp
qed

text \<open>
  The amount \<^verbatim>\<open>abc\<close> with every draw one half is scored, by both functions, as the
  amount \<^verbatim>\<open>0\<close> is; so is the amount \<^verbatim>\<open>-5\<close> by detectFraud.
\<close>

theorem unparsed_amount_scored_as_zero_witness:
  "\<not> isNonNegative (parseFloat (amount (dashboardTransaction ''abc''))) \<and>
   detectFraud (dashboardTransaction ''abc'') (\<lambda>_. 1/2) =
     detectFraud (dashboardTransaction ''0'') (\<lambda>_. 1/2) \<and>
   sampleParse (event.body \<lparr>event.body = dashboardBody ''abc''\<rparr>) =
     Inr (jsonOfTransaction (dashboardTransaction ''abc'')) \<and>
   sampleParse (event.body \<lparr>event.body = dashboardBody ''0''\<rparr>) =
     Inr (jsonOfTransaction (dashboardTransaction ''0'')) \<and>
   handler sampleParse \<lparr>event.body = dashboardBody ''abc''\<rparr> (\<lambda>_. 1/2) =
     handler sampleParse \<lparr>event.body = dashboardBody ''0''\<rparr> (\<lambda>_. 1/2) \<and>
   statusCode (fst (handler sampleParse \<lparr>event.body = dashboardBody ''abc''\<rparr> (\<lambda>_. 1/2))) = 200 \<and>
   \<not> isNonNegative (parseFloat (amount (dashboardTransaction ''-5''))) \<and>
   detectFraud (dashboardTransaction ''-5'') (\<lambda>_. 1/2) =
     detectFraud (dashboardTransaction ''0'') (\<lambda>_. 1/2)"
proof -
  have h: "\<not> isNonNegative (parseFloat (amount (dashboardTransaction ''abc'')))"
    by (simp add: dashboard_amount parseFloat_abc)
  have h': "\<not> isNonNegative (parseFloat (amount (dashboardTransaction ''-5'')))"
    by (simp add: dashboard_amount parseFloat_minus5)
  have z: "(dashboardTransaction ''abc'')\<lparr>amount := ''0''\<rparr> = dashboardTransaction ''0''"
    and z': "(dashboardTransaction ''-5'')\<lparr>amount := ''0''\<rparr> = dashboardTransaction ''0''"
    by (simp_all add: dashboardTransaction_def)
  have p: "sampleParse (event.body \<lparr>event.body = dashboardBody ''abc''\<rparr>) =
     Inr (jsonOfTransaction (dashboardTransaction ''abc''))"
    and p0: "sampleParse (event.body \<lparr>event.body = dashboardBody ''0''\<rparr>) =
     Inr (jsonOfTransaction (dashboardTransaction ''0''))"
    by (simp_all add: sampleParse_dashboard)
  have neg: "detectFraud (dashboardTransaction ''-5'') (\<lambda>_. 1/2) =
     detectFraud (dashboardTransaction ''0'') (\<lambda>_. 1/2)"
    using unparsed_amount_scored_as_zero[OF h', where g = "\<lambda>_. 1/2"]
    unfolding z' by blast
  show ?thesis
    using unparsed_amount_scored_as_zero[OF h, where JSON_parse = sampleParse
        and ev = "\<lparr>event.body = dashboardBody ''abc''\<rparr>"
        and ?ev0.0 = "\<lparr>event.body = dashboardBody ''0''\<rparr>" and g = "\<lambda>_. 1/2"]
      h h' p p0 neg
    unfolding z by blast
qed

end
